theory Spec2Isabelle
  imports Main "HOL-Library.Sublist" "HOL-Library.Word"
begin

section \<open>Go strings\<close>

text \<open>
  A Go string is a sequence of bytes, so it is a \<^typ>\<open>string\<close> here and Go's \<open>len\<close> is
  \<^const>\<open>length\<close>. A Go \<open>error\<close> is represented by its \<open>Error()\<close> text; \<open>fmt.Errorf\<close> with
  \<open>%s\<close>, \<open>%w\<close> is concatenation.
\<close>

text \<open>
  The UTF-8 encodings of the code points with Unicode's White_Space property, which is what
  \<open>unicode.IsSpace\<close> accepts: U+0009..U+000D, U+0020, U+0085, U+00A0, U+1680,
  U+2000..U+200A, U+2028, U+2029, U+202F, U+205F, U+3000.
\<close>

definition spaceRunes :: "string list" where
  "spaceRunes =
    [[CHR 0x09], [CHR 0x0A], [CHR 0x0B], [CHR 0x0C], [CHR 0x0D], [CHR 0x20],
     [CHR 0xC2, CHR 0x85], [CHR 0xC2, CHR 0xA0],
     [CHR 0xE1, CHR 0x9A, CHR 0x80],
     [CHR 0xE2, CHR 0x80, CHR 0x80], [CHR 0xE2, CHR 0x80, CHR 0x81],
     [CHR 0xE2, CHR 0x80, CHR 0x82], [CHR 0xE2, CHR 0x80, CHR 0x83],
     [CHR 0xE2, CHR 0x80, CHR 0x84], [CHR 0xE2, CHR 0x80, CHR 0x85],
     [CHR 0xE2, CHR 0x80, CHR 0x86], [CHR 0xE2, CHR 0x80, CHR 0x87],
     [CHR 0xE2, CHR 0x80, CHR 0x88], [CHR 0xE2, CHR 0x80, CHR 0x89],
     [CHR 0xE2, CHR 0x80, CHR 0x8A],
     [CHR 0xE2, CHR 0x80, CHR 0xA8], [CHR 0xE2, CHR 0x80, CHR 0xA9],
     [CHR 0xE2, CHR 0x80, CHR 0xAF],
     [CHR 0xE2, CHR 0x81, CHR 0x9F],
     [CHR 0xE3, CHR 0x80, CHR 0x80]]"

text \<open>
  \<open>trimLeftRunes rs s\<close> removes from the front of \<open>s\<close>, as long as there is one, a byte
  sequence of \<open>rs\<close>: with \<open>rs = spaceRunes\<close> this is \<open>strings.TrimLeftFunc(s, unicode.IsSpace)\<close>,
  whose decoder reads a white-space rune exactly where one of these encodings starts.
\<close>

function trimLeftRunes :: "string list \<Rightarrow> string \<Rightarrow> string" where
  "trimLeftRunes rs s =
     (case find (\<lambda>e. e \<noteq> [] \<and> prefix e s) rs of
        None \<Rightarrow> s
      | Some e \<Rightarrow> trimLeftRunes rs (drop (length e) s))"
  by pat_completeness auto
termination
proof (relation "measure (\<lambda>(rs, s). length s)")
  show "wf (measure (\<lambda>(rs, s). length s))" by simp
next
  fix rs :: "string list" and s e :: string
  assume "find (\<lambda>e. e \<noteq> [] \<and> prefix e s) rs = Some e"
  then have "e \<noteq> []" and "prefix e s"
    by (auto simp: find_Some_iff)
  then have "length e \<le> length s" and "0 < length e"
    by (auto simp: prefix_length_le)
  then have "length s - length e < length s"
    by linarith
  then show "((rs, drop (length e) s), (rs, s)) \<in> measure (\<lambda>(rs, s). length s)"
    by simp
qed

declare trimLeftRunes.simps [simp del]

text \<open>
  \<open>strings.TrimSpace\<close>: leading and trailing white-space runes are removed. A string ends
  with a white-space rune exactly when its reversal starts with a reversed encoding.
\<close>

definition TrimSpace :: "string \<Rightarrow> string" where
  "TrimSpace s = rev (trimLeftRunes (map rev spaceRunes) (rev (trimLeftRunes spaceRunes s)))"

text \<open>
  \<open>strings.Trim(s, cutset)\<close> for a cutset of ASCII characters (the program's only cutset is
  \<open>"*"\<close>): leading and trailing bytes of the cutset are removed, interior ones are kept.
\<close>

definition Trim :: "string \<Rightarrow> string \<Rightarrow> string" where
  "Trim s cutset =
     rev (dropWhile (\<lambda>c. c \<in> set cutset) (rev (dropWhile (\<lambda>c. c \<in> set cutset) s)))"

text \<open>\<open>strings.Contains(s, sub)\<close>: \<open>sub\<close> occurs in \<open>s\<close> as a contiguous run of bytes.\<close>

fun Contains :: "string \<Rightarrow> string \<Rightarrow> bool" where
  "Contains [] sub = (sub = [])"
| "Contains (c # s) sub = (prefix sub (c # s) \<or> Contains s sub)"

text \<open>
  \<open>strings.ReplaceAll(s, old, new)\<close> for a non-empty \<open>old\<close> (every call of the program
  passes a non-empty literal): the non-overlapping occurrences of \<open>old\<close> are replaced from
  left to right. The argument \<open>k\<close> counts the bytes still to skip after a match. Go's
  treatment of an empty \<open>old\<close> is not modelled; the string is returned as it is.
\<close>

fun replaceFrom :: "nat \<Rightarrow> string \<Rightarrow> string \<Rightarrow> string \<Rightarrow> string" where
  "replaceFrom k [] old new = []"
| "replaceFrom (Suc k) (c # s) old new = replaceFrom k s old new"
| "replaceFrom 0 (c # s) old new =
     (if prefix old (c # s) then new @ replaceFrom (length old - 1) s old new
      else c # replaceFrom 0 s old new)"

definition ReplaceAll :: "string \<Rightarrow> string \<Rightarrow> string \<Rightarrow> string" where
  "ReplaceAll s old new = (if old = [] then s else replaceFrom 0 s old new)"

section \<open>Configuration (package config)\<close>

record LLMConfig =
  Provider :: string
  APIKey :: string
  Model :: string
  Timeout :: int
  MaxRetries :: int
  FailoverEnabled :: bool
  FallbackProviders :: "string list"

record Mapping =
  CodePattern :: string
  DocFile :: string
  Section :: string

record GitConfig =
  CommitDocUpdates :: bool
  AmendOriginal :: bool
  DocCommitMessage :: string

record StateConfig =
  DBPath :: string

record RuntimeOptions =
  DefaultSection :: string

record Config =
  LLM :: LLMConfig
  DocFiles :: "string list"
  Mappings :: "Mapping list"
  Git :: GitConfig
  State :: StateConfig
  Runtime :: RuntimeOptions

section \<open>Target resolution and validation (package orchestrator)\<close>

text \<open>
  \<open>resolveTarget\<close>: the outer loop runs over the changed files, the inner loop over the
  mappings; the first pair that matches returns.
\<close>

fun matchMappings :: "string \<Rightarrow> Mapping list \<Rightarrow> (string \<times> string) option" where
  "matchMappings changed [] = None"
| "matchMappings changed (m # ms) =
     (if Contains changed (Trim (CodePattern m) ''*'') then Some (DocFile m, Section m)
      else matchMappings changed ms)"

fun matchChanged :: "string list \<Rightarrow> Mapping list \<Rightarrow> (string \<times> string) option" where
  "matchChanged [] ms = None"
| "matchChanged (changed # rest) ms =
     (case matchMappings changed ms of
        Some t \<Rightarrow> Some t
      | None \<Rightarrow> matchChanged rest ms)"

definition resolveTarget :: "Config \<Rightarrow> string list \<Rightarrow> string \<times> string" where
  "resolveTarget cfg changedFiles =
     (case matchChanged changedFiles (Mappings cfg) of
        Some t \<Rightarrow> t
      | None \<Rightarrow>
          (case DocFiles cfg of
             d # _ \<Rightarrow> (d, DefaultSection (Runtime cfg))
           | [] \<Rightarrow> (''README.md'', DefaultSection (Runtime cfg))))"

text \<open>\<open>validateGeneratedSection\<close>: \<open>None\<close> is the nil error.\<close>

definition validateGeneratedSection :: "string \<Rightarrow> string option" where
  "validateGeneratedSection content =
     (let trimmed = TrimSpace content in
      if trimmed = [] then Some ''generated section content is empty''
      else if length trimmed > 25000 then Some ''generated section content exceeds max size''
      else None)"

section \<open>Persistent store (package state)\<close>

text \<open>
  The SQLite database is modelled by its tables. A row of \<open>processed_commits\<close> keeps the
  columns the program writes; \<open>processed_at\<close> is \<open>CURRENT_TIMESTAMP\<close> at every insert and
  at every conflicting update, so the table is kept as a list in the order of the last write
  and \<open>ORDER BY processed_at ASC\<close> is the order of the list (rows written within the same
  second, which SQL leaves unordered, are taken in the order they were written). The column
  \<open>doc_files_changed\<close> holds the JSON text of a string list; the list itself is stored.
\<close>

record processed_commit =
  commit_hash :: string
  status :: string
  error :: "string option"
  doc_commit_hash :: "string option"
  doc_files_changed :: "string list"

record planned_update =
  strategy :: string
  plan_status :: string
  reason :: "string option"

datatype anyval = Str string | Num int

record run_event =
  run_id :: string
  event_commit :: "string option"
  level :: string
  component :: string
  message :: string
  metadata :: "(string \<times> anyval) list option"

record LLMCacheEntry =
  CommitHash :: string
  EntryDocFile :: string
  SectionID :: string
  EntryProvider :: string
  EntryModel :: string
  PromptHash :: string
  Response :: string

type_synonym cache_key = "string \<times> string \<times> string \<times> string \<times> string \<times> string"

text \<open>
  \<open>faults\<close> is the outcome the database driver gives to the statements still to come, one
  entry per statement: \<open>None\<close> lets the statement run, \<open>Some e\<close> makes it fail with the
  error text \<open>e\<close> and no effect. Past the end of the list every statement runs.
\<close>

record Store =
  faults :: "string option list"
  processed_commits :: "processed_commit list"
  mappings :: "(string \<times> string \<times> string) list"
  planned_updates :: "string \<times> string \<times> string \<rightharpoonup> planned_update"
  llm_cache :: "cache_key \<rightharpoonup> string"
  run_events :: "run_event list"

definition statement :: "Store \<Rightarrow> Store \<times> string option" where
  "statement s = (case faults s of [] \<Rightarrow> (s, None) | f # fs \<Rightarrow> (s\<lparr>faults := fs\<rparr>, f))"

definition nullIfEmpty :: "string \<Rightarrow> string option" where
  "nullIfEmpty s = (if s = [] then None else Some s)"

text \<open>
  \<open>hashPrompt\<close>: the hexadecimal text of the SHA-256 digest. \<open>crypto/sha256.Sum256\<close> is a
  parameter, \<open>sum256\<close>, giving the digest's bytes.
\<close>

definition hexDigit :: "nat \<Rightarrow> char" where
  "hexDigit n = ''0123456789abcdef'' ! (n mod 16)"

definition hexByte :: "char \<Rightarrow> string" where
  "hexByte c = [hexDigit (of_char c div 16), hexDigit (of_char c mod 16)]"

definition hashPrompt :: "(string \<Rightarrow> string) \<Rightarrow> string \<Rightarrow> string" where
  "hashPrompt sum256 prompt = concat (map hexByte (sum256 prompt))"

definition validStatuses :: "string list" where
  "validStatuses = [''pending'', ''in_progress'', ''success'', ''failed'', ''skipped'']"

text \<open>
  \<open>MarkCommitProcessed\<close>: an upsert on \<open>commit_hash\<close>. The table's \<open>CHECK\<close> on \<open>status\<close>
  rejects any other status; the driver's message for that is not part of the repository.
\<close>

definition MarkCommitProcessed ::
  "Store \<Rightarrow> string \<Rightarrow> string \<Rightarrow> string \<Rightarrow> string \<Rightarrow> string list \<Rightarrow> Store \<times> string option" where
  "MarkCommitProcessed s commitHash st errText docCommit filesChanged =
     (case statement s of
        (s1, Some e) \<Rightarrow> (s1, Some (''mark commit processed: '' @ e))
      | (s1, None) \<Rightarrow>
          if st \<notin> set validStatuses
          then (s1, Some (''mark commit processed: '' @ ''CHECK constraint failed: status''))
          else (s1\<lparr>processed_commits :=
                     filter (\<lambda>r. commit_hash r \<noteq> commitHash) (processed_commits s1) @
                     [\<lparr>commit_hash = commitHash, status = st, error = nullIfEmpty errText,
                       doc_commit_hash = nullIfEmpty docCommit,
                       doc_files_changed = filesChanged\<rparr>]\<rparr>, None))"

definition GetLastProcessedCommit :: "Store \<Rightarrow> Store \<times> (string + string)" where
  "GetLastProcessedCommit s =
     (case statement s of
        (s1, Some e) \<Rightarrow> (s1, Inl e)
      | (s1, None) \<Rightarrow>
          (s1, Inr (case rev (filter (\<lambda>r. status r = ''success'') (processed_commits s1)) of
                      [] \<Rightarrow> []
                    | r # _ \<Rightarrow> commit_hash r)))"

definition GetResumableCommits :: "Store \<Rightarrow> Store \<times> (string + string list)" where
  "GetResumableCommits s =
     (case statement s of
        (s1, Some e) \<Rightarrow> (s1, Inl e)
      | (s1, None) \<Rightarrow>
          (s1, Inr (map commit_hash
                      (filter (\<lambda>r. status r = ''pending'' \<or> status r = ''in_progress'')
                         (processed_commits s1)))))"

definition StoreMapping :: "Store \<Rightarrow> string \<Rightarrow> string \<Rightarrow> string \<Rightarrow> Store \<times> string option" where
  "StoreMapping s commitHash docFile section =
     (case statement s of
        (s1, Some e) \<Rightarrow> (s1, Some e)
      | (s1, None) \<Rightarrow> (s1\<lparr>mappings := mappings s1 @ [(commitHash, docFile, section)]\<rparr>, None))"

definition UpsertPlannedUpdate ::
  "Store \<Rightarrow> string \<Rightarrow> string \<Rightarrow> string \<Rightarrow> string \<Rightarrow> string \<Rightarrow> string \<Rightarrow> Store \<times> string option" where
  "UpsertPlannedUpdate s commitHash docFile sectionID strat st rsn =
     (case statement s of
        (s1, Some e) \<Rightarrow> (s1, Some e)
      | (s1, None) \<Rightarrow>
          (s1\<lparr>planned_updates := (planned_updates s1)((commitHash, docFile, sectionID) \<mapsto>
                 \<lparr>strategy = strat, plan_status = st, reason = nullIfEmpty rsn\<rparr>)\<rparr>, None))"

text \<open>
  \<open>GetCachedLLMResponse\<close> returns \<open>(response, hit, error)\<close>: no row is \<open>("", false, nil)\<close>,
  a failing query is \<open>("", false, err)\<close>.
\<close>

definition GetCachedLLMResponse ::
  "(string \<Rightarrow> string) \<Rightarrow> Store \<Rightarrow> string \<Rightarrow> string \<Rightarrow> string \<Rightarrow> string \<Rightarrow> string \<Rightarrow> string \<Rightarrow>
   Store \<times> string \<times> bool \<times> string option" where
  "GetCachedLLMResponse sum256 s commitHash docFile sectionID provider model prompt =
     (let promptHash = hashPrompt sum256 prompt in
      case statement s of
        (s1, Some e) \<Rightarrow> (s1, [], False, Some e)
      | (s1, None) \<Rightarrow>
          (case llm_cache s1 (commitHash, docFile, sectionID, provider, model, promptHash) of
             None \<Rightarrow> (s1, [], False, None)
           | Some response \<Rightarrow> (s1, response, True, None)))"

definition PutCachedLLMResponse :: "Store \<Rightarrow> LLMCacheEntry \<Rightarrow> Store \<times> string option" where
  "PutCachedLLMResponse s entry =
     (if PromptHash entry = [] then (s, Some ''prompt hash is required for llm cache entry'')
      else case statement s of
        (s1, Some e) \<Rightarrow> (s1, Some e)
      | (s1, None) \<Rightarrow>
          (s1\<lparr>llm_cache := (llm_cache s1)((CommitHash entry, EntryDocFile entry, SectionID entry,
                 EntryProvider entry, EntryModel entry, PromptHash entry) \<mapsto> Response entry)\<rparr>,
           None))"

text \<open>
  \<open>LogRunEvent\<close>: the metadata map is stored as the JSON text of the map; the map itself,
  as a list of its entries, is kept. \<open>json.Marshal\<close> of a map of strings and integers
  does not fail.
\<close>

definition LogRunEvent ::
  "Store \<Rightarrow> string \<Rightarrow> string \<Rightarrow> string \<Rightarrow> string \<Rightarrow> string \<Rightarrow> (string \<times> anyval) list option \<Rightarrow>
   Store \<times> string option" where
  "LogRunEvent s runID commitHash lvl cmpn msg meta =
     (case statement s of
        (s1, Some e) \<Rightarrow> (s1, Some e)
      | (s1, None) \<Rightarrow>
          (s1\<lparr>run_events := run_events s1 @
                 [\<lparr>run_id = runID, event_commit = nullIfEmpty commitHash, level = lvl,
                   component = cmpn, message = msg, metadata = meta\<rparr>]\<rparr>, None))"

section \<open>Collaborators of the orchestrator\<close>

text \<open>
  \<open>llm.Client\<close>: the interface \<open>{Name, Generate}\<close>. A client may keep state between
  calls, so \<open>Generate\<close> takes the number of calls made to this client before; the caller
  keeps the count. The context argument is only passed on, and its effect on a provider is
  part of the provider's answer.
\<close>

record Client =
  Name :: string
  Generate :: "nat \<Rightarrow> string \<Rightarrow> string + string"

record CommitInfo =
  Hash :: string
  Author :: string
  Email :: string
  Timestamp :: int
  Subject :: string

text \<open>
  \<open>gitutil.Helper\<close>: the queries are functions of their arguments; the two operations that
  change the repository are recorded in the world as they are called.
\<close>

record Helper =
  GetRepoRoot :: "string + string"
  GetCurrentHEAD :: "string + string"
  GetLastProcessedRange :: "string \<Rightarrow> string \<Rightarrow> string + CommitInfo list"
  GetCommitDiff :: "string \<Rightarrow> string + string"
  GetCommitMessage :: "string \<Rightarrow> string + string"
  GetChangedFiles :: "string \<Rightarrow> string + string list"
  StageAndCommit :: "string list \<Rightarrow> string \<Rightarrow> string + string"
  StageAndAmend :: "string list \<Rightarrow> string + string"
  RevertCommit :: "string \<Rightarrow> string option"

text \<open>\<open>doc.Updater\<close>, the interface of the section editor.\<close>

record Updater =
  ExtractSection :: "string \<Rightarrow> string \<Rightarrow> string + string"
  ReplaceSection :: "string \<Rightarrow> string \<Rightarrow> string \<Rightarrow> string + string"

record Hunk =
  OldStart :: int
  OldLines :: int
  NewStart :: int
  NewLines :: int
  Lines :: "string list"

record FileDiff =
  Path :: string
  Hunks :: "Hunk list"
  AddedLines :: int
  DelLines :: int

record Diff =
  Files :: "FileDiff list"

text \<open>
  What the orchestrator calls outside its packages and its interfaces: \<open>sha256.Sum256\<close>,
  \<open>filepath.Join\<close>, \<open>time.Now().UnixNano()\<close>, the parser \<open>diff.ParseUnifiedDiff\<close> (a pure
  function of the diff text, whose result only enters the prompt), and the failure, if any,
  of the steps of \<open>doc.AtomicWriteFile\<close> for a path and content (the text of the wrapped
  error of the first failing step).
\<close>

record Platform =
  Sum256 :: "string \<Rightarrow> string"
  Join :: "string \<Rightarrow> string \<Rightarrow> string"
  UnixNano :: int
  ParseUnifiedDiff :: "string \<Rightarrow> string + Diff"
  writeFault :: "string \<Rightarrow> string \<Rightarrow> string option"

text \<open>
  \<open>Dependencies\<close>: the store of the Go struct is part of the world below, since it changes.
\<close>

record Dependencies =
  Config :: Config
  GitHelper :: Helper
  DocUpdater :: Updater
  LLMClient :: Client
  Platform :: Platform

datatype file_state = NoFile | Unreadable string | Content string

datatype git_call = CalledStageAndCommit "string list" string | CalledStageAndAmend "string list"

text \<open>
  The world a run changes: the store, the files (\<open>os.ReadFile\<close> of a path finds no file, fails
  otherwise, or gives the content), and the calls made to \<open>doc.AtomicWriteFile\<close>, to the two
  committing operations of the helper and to the generation client.
\<close>

record world =
  store :: Store
  fs :: "string \<Rightarrow> file_state"
  fileWrites :: "(string \<times> string) list"
  gitCalls :: "git_call list"
  llmCalls :: "string list"

definition onStore :: "world \<Rightarrow> (Store \<Rightarrow> Store \<times> 'a) \<Rightarrow> world \<times> 'a" where
  "onStore w f = (case f (store w) of (s, r) \<Rightarrow> (w\<lparr>store := s\<rparr>, r))"

text \<open>A call whose error is discarded (\<open>_ = ...\<close>).\<close>

definition discard :: "world \<Rightarrow> (Store \<Rightarrow> Store \<times> 'a) \<Rightarrow> world" where
  "discard w f = fst (onStore w f)"

section \<open>Documents (package doc) and diff summaries (package diff)\<close>

definition DetectLineEnding :: "string \<Rightarrow> string" where
  "DetectLineEnding content =
     (if Contains content [CHR 0x0D, CHR 0x0A] then [CHR 0x0D, CHR 0x0A] else [CHR 0x0A])"

definition NormalizeLineEndings :: "string \<Rightarrow> string \<Rightarrow> string" where
  "NormalizeLineEndings content lineEnding =
     (let normalized = ReplaceAll content [CHR 0x0D, CHR 0x0A] [CHR 0x0A];
          normalized = ReplaceAll normalized [CHR 0x0D] [CHR 0x0A]
      in if lineEnding = [CHR 0x0D, CHR 0x0A]
         then ReplaceAll normalized [CHR 0x0A] [CHR 0x0D, CHR 0x0A]
         else normalized)"

text \<open>
  \<open>AtomicWriteFile\<close>: the temporary file is created beside the target and is gone when the
  call returns, renamed or removed, so it is not part of the modelled files; the target has
  the new content exactly when every step succeeded.
\<close>

definition AtomicWriteFile :: "Platform \<Rightarrow> world \<Rightarrow> string \<Rightarrow> string \<Rightarrow> world \<times> string option" where
  "AtomicWriteFile pf w path content =
     (let w1 = w\<lparr>fileWrites := fileWrites w @ [(path, content)]\<rparr> in
      case writeFault pf path content of
        Some e \<Rightarrow> (w1, Some e)
      | None \<Rightarrow> (w1\<lparr>fs := (fs w1)(path := Content content)\<rparr>, None))"

text \<open>\<open>%d\<close> of an integer.\<close>

fun natDigits :: "nat \<Rightarrow> string" where
  "natDigits n =
     (if n < 10 then [''0123456789'' ! n]
      else natDigits (n div 10) @ [''0123456789'' ! (n mod 10)])"

declare natDigits.simps [simp del]

definition itoa :: "int \<Rightarrow> string" where
  "itoa i = (if i < 0 then CHR ''-'' # natDigits (nat (- i)) else natDigits (nat i))"

fun joinLines :: "string list \<Rightarrow> string" where
  "joinLines [] = []"
| "joinLines [l] = l"
| "joinLines (l # ls) = l @ [CHR 0x0A] @ joinLines ls"

definition summaryLine :: "FileDiff \<Rightarrow> string" where
  "summaryLine file =
     (let path = (if TrimSpace (Path file) = [] then ''(unknown path)'' else Path file)
      in ''- '' @ path @ '' (hunks='' @ itoa (int (length (Hunks file))) @ '', +'' @
         itoa (AddedLines file) @ '', -'' @ itoa (DelLines file) @ '')'')"

definition BuildSummary :: "Diff \<Rightarrow> string" where
  "BuildSummary d =
     (if Files d = [] then ''No parseable file-level diff information available.''
      else joinLines ((''Files changed: '' @ itoa (int (length (Files d)))) #
                      map summaryLine (Files d)))"

definition TruncateText :: "string \<Rightarrow> int \<Rightarrow> string" where
  "TruncateText content maxLen =
     (if maxLen \<le> 0 \<or> int (length content) \<le> maxLen then content
      else take (nat maxLen) content)"

section \<open>The orchestrator (package orchestrator)\<close>

record Summary =
  Processed :: int
  Success :: int
  Failed :: int
  Skipped :: int

definition buildPrompt :: "Platform \<Rightarrow> string \<Rightarrow> string \<Rightarrow> string" where
  "buildPrompt pf commitMessage diff =
     (let diffContext =
            (case ParseUnifiedDiff pf diff of
               Inr parsed \<Rightarrow>
                 if Files parsed \<noteq> [] then TruncateText (BuildSummary parsed) 3000
                 else TruncateText diff 3000
             | Inl e \<Rightarrow> TruncateText diff 3000)
      in ''Update docs for this commit.'' @ [CHR 0x0A] @ ''Commit message: '' @ commitMessage @
         [CHR 0x0A] @ ''Diff:'' @ [CHR 0x0A] @ diffContext @ [CHR 0x0A] @
         ''Output updated section content only.'')"

fun mergeInto :: "string list \<Rightarrow> string list \<Rightarrow> string list" where
  "mergeInto [] out = out"
| "mergeInto (item # items) out =
     (if item = [] then mergeInto items out
      else if item \<in> set out then mergeInto items out
      else mergeInto items (out @ [item]))"

text \<open>\<open>mergeUnique\<close>: the map \<open>seen\<close> holds exactly the items of \<open>out\<close>.\<close>

definition mergeUnique :: "string list \<Rightarrow> string list \<Rightarrow> string list" where
  "mergeUnique first second = mergeInto second (mergeInto first [])"

text \<open>
  \<open>processSingleCommit\<close> returns \<open>(status, error)\<close>, here with the world it leaves. Its body
  is given in four parts, in the order of the source: the documentation commit, the write of
  the document and the final bookkeeping (\<open>stageDocs\<close> and \<open>writeAndCommit\<close>), validation up to
  the dry-run return (\<open>applySection\<close>), the cache and the generation client
  (\<open>generateSection\<close>), and the steps before them.
\<close>

definition stageDocs :: "Dependencies \<Rightarrow> world \<Rightarrow> string \<Rightarrow> string \<Rightarrow> world \<times> (string + string)" where
  "stageDocs deps w hash targetDocFile =
     (if CommitDocUpdates (Git (Config deps)) then
        if AmendOriginal (Git (Config deps)) then
          (w\<lparr>gitCalls := gitCalls w @ [CalledStageAndAmend [targetDocFile]]\<rparr>,
           StageAndAmend (GitHelper deps) [targetDocFile])
        else
          (let msg = ReplaceAll (DocCommitMessage (Git (Config deps))) ''{hash}'' hash in
           (w\<lparr>gitCalls := gitCalls w @ [CalledStageAndCommit [targetDocFile] msg]\<rparr>,
            StageAndCommit (GitHelper deps) [targetDocFile] msg))
      else (w, Inr []))"

definition writeAndCommit ::
  "Dependencies \<Rightarrow> world \<Rightarrow> string \<Rightarrow> string \<Rightarrow> string \<Rightarrow> string \<Rightarrow> string \<Rightarrow>
   world \<times> string \<times> string option" where
  "writeAndCommit deps w hash targetDocFile targetSection docPath updated =
     (case AtomicWriteFile (Platform deps) w docPath updated of
        (w1, Some e) \<Rightarrow>
          (discard w1 (\<lambda>s. UpsertPlannedUpdate s hash targetDocFile targetSection
                              ''inferred'' ''failed'' e),
           ''failed'', Some e)
      | (w1, None) \<Rightarrow>
          (case stageDocs deps w1 hash targetDocFile of
             (w2, Inl e) \<Rightarrow> (w2, ''failed'', Some e)
           | (w2, Inr docCommitHash) \<Rightarrow>
               (case onStore w2 (\<lambda>s. MarkCommitProcessed s hash ''success'' [] docCommitHash
                                        [targetDocFile]) of
                  (w3, Some e) \<Rightarrow> (w3, ''failed'', Some e)
                | (w3, None) \<Rightarrow>
                    (case onStore w3 (\<lambda>s. StoreMapping s hash targetDocFile targetSection) of
                       (w4, Some e) \<Rightarrow> (w4, ''failed'', Some e)
                     | (w4, None) \<Rightarrow>
                         (discard w4 (\<lambda>s. UpsertPlannedUpdate s hash targetDocFile
                                             targetSection ''inferred'' ''applied'' []),
                          ''success'', None)))))"

definition applySection ::
  "Dependencies \<Rightarrow> world \<Rightarrow> string \<Rightarrow> bool \<Rightarrow> string \<Rightarrow> string \<Rightarrow> string \<Rightarrow> string \<Rightarrow> string \<Rightarrow>
   world \<times> string \<times> string option" where
  "applySection deps w hash dryRun targetDocFile targetSection docPath docRaw newSection =
     (case validateGeneratedSection newSection of
        Some e \<Rightarrow>
          (discard w (\<lambda>s. UpsertPlannedUpdate s hash targetDocFile targetSection
                             ''inferred'' ''failed'' e),
           ''failed'', Some e)
      | None \<Rightarrow>
          (case ReplaceSection (DocUpdater deps) docRaw targetSection newSection of
             Inl e \<Rightarrow>
               (discard w (\<lambda>s. UpsertPlannedUpdate s hash targetDocFile targetSection
                                  ''inferred'' ''failed'' e),
                ''failed'', Some e)
           | Inr replaced \<Rightarrow>
               (let updated = NormalizeLineEndings replaced (DetectLineEnding docRaw) in
                if TrimSpace updated = TrimSpace docRaw then
                  (let w1 = discard w (\<lambda>s. UpsertPlannedUpdate s hash targetDocFile targetSection
                                              ''inferred'' ''unchanged'' ''no document delta'')
                   in case onStore w1 (\<lambda>s. MarkCommitProcessed s hash ''skipped'' [] [] []) of
                        (w2, Some e) \<Rightarrow> (w2, ''failed'', Some e)
                      | (w2, None) \<Rightarrow> (w2, ''skipped'', None))
                else if dryRun then
                  (let w1 = discard w (\<lambda>s. UpsertPlannedUpdate s hash targetDocFile targetSection
                                              ''inferred'' ''applied'' ''dry-run'')
                   in case onStore w1 (\<lambda>s. MarkCommitProcessed s hash ''success'' [] []
                                               [targetDocFile]) of
                        (w2, Some e) \<Rightarrow> (w2, ''failed'', Some e)
                      | (w2, None) \<Rightarrow> (w2, ''success'', None))
                else writeAndCommit deps w hash targetDocFile targetSection docPath updated)))"

definition generateSection ::
  "Dependencies \<Rightarrow> world \<Rightarrow> string \<Rightarrow> string \<Rightarrow> string \<Rightarrow> string \<Rightarrow> string \<Rightarrow>
   world \<times> (string + string)" where
  "generateSection deps w runID hash targetDocFile targetSection prompt =
     (let providerName = Name (LLMClient deps);
          modelName = Model (LLM (Config deps));
          promptHash = hashPrompt (Sum256 (Platform deps)) prompt
      in case onStore w (\<lambda>s. GetCachedLLMResponse (Sum256 (Platform deps)) s hash targetDocFile
                                targetSection providerName modelName prompt) of
           (w1, cachedSection, cached, cacheErr) \<Rightarrow>
             (let w2 = (case cacheErr of
                          Some e \<Rightarrow>
                            discard w1 (\<lambda>s. LogRunEvent s runID hash ''warn'' ''state''
                                               ''failed to read llm cache''
                                               (Some [(''error'', Str e)]))
                        | None \<Rightarrow> w1)
              in if \<not> cached then
                   (let w3 = w2\<lparr>llmCalls := llmCalls w2 @ [prompt]\<rparr> in
                    case Generate (LLMClient deps) (length (llmCalls w2)) prompt of
                      Inl e \<Rightarrow>
                        (discard w3 (\<lambda>s. UpsertPlannedUpdate s hash targetDocFile targetSection
                                            ''inferred'' ''failed'' e),
                         Inl e)
                    | Inr newSection \<Rightarrow>
                        (discard w3 (\<lambda>s. PutCachedLLMResponse s
                                            \<lparr>CommitHash = hash, EntryDocFile = targetDocFile,
                                             SectionID = targetSection,
                                             EntryProvider = providerName,
                                             EntryModel = modelName, PromptHash = promptHash,
                                             Response = newSection\<rparr>),
                         Inr newSection))
                 else
                   (discard w2 (\<lambda>s. LogRunEvent s runID hash ''info'' ''llm'' ''cache hit''
                                       (Some [(''doc_file'', Str targetDocFile),
                                              (''section'', Str targetSection)])),
                    Inr cachedSection)))"

definition processSingleCommit ::
  "Dependencies \<Rightarrow> world \<Rightarrow> string \<Rightarrow> string \<Rightarrow> bool \<Rightarrow> world \<times> string \<times> string option" where
  "processSingleCommit deps w runID hash dryRun =
     (case onStore w (\<lambda>s. MarkCommitProcessed s hash ''in_progress'' [] [] []) of
        (w1, Some e) \<Rightarrow> (w1, ''failed'', Some e)
      | (w1, None) \<Rightarrow>
     (case GetChangedFiles (GitHelper deps) hash of
        Inl e \<Rightarrow> (w1, ''failed'', Some e)
      | Inr changedFiles \<Rightarrow>
     if changedFiles = [] then
       (case onStore w1 (\<lambda>s. MarkCommitProcessed s hash ''skipped'' [] [] []) of
          (w2, Some e) \<Rightarrow> (w2, ''failed'', Some e)
        | (w2, None) \<Rightarrow> (w2, ''skipped'', None))
     else
     (case GetCommitMessage (GitHelper deps) hash of
        Inl e \<Rightarrow> (w1, ''failed'', Some e)
      | Inr commitMessage \<Rightarrow>
     (case GetCommitDiff (GitHelper deps) hash of
        Inl e \<Rightarrow> (w1, ''failed'', Some e)
      | Inr diffContent \<Rightarrow>
     (case resolveTarget (Config deps) changedFiles of
        (targetDocFile, targetSection) \<Rightarrow>
     (case GetRepoRoot (GitHelper deps) of
        Inl e \<Rightarrow> (w1, ''failed'', Some e)
      | Inr repoRoot \<Rightarrow>
     (let docPath = Join (Platform deps) repoRoot targetDocFile in
      case fs w1 docPath of
        NoFile \<Rightarrow> (w1, ''failed'', Some (''target doc file not found: '' @ targetDocFile))
      | Unreadable e \<Rightarrow> (w1, ''failed'', Some e)
      | Content docRaw \<Rightarrow>
          (let w2 = (case onStore w1 (\<lambda>s. UpsertPlannedUpdate s hash targetDocFile targetSection
                                             ''inferred'' ''planned'' []) of
                       (w', Some e) \<Rightarrow>
                         discard w' (\<lambda>s. LogRunEvent s runID hash ''warn'' ''state''
                                            ''failed to persist planned update''
                                            (Some [(''error'', Str e)]))
                     | (w', None) \<Rightarrow> w');
               prompt = buildPrompt (Platform deps) commitMessage diffContent
           in case generateSection deps w2 runID hash targetDocFile targetSection prompt of
                (w3, Inl e) \<Rightarrow> (w3, ''failed'', Some e)
              | (w3, Inr newSection) \<Rightarrow>
                  applySection deps w3 hash dryRun targetDocFile targetSection docPath docRaw
                    newSection))))))))"

text \<open>
  The loop of \<open>UpdateCommitList\<close>. The counters are Go \<open>int\<close>s; each is at most the length of
  the list, which fits an \<open>int\<close>, so they are integers here.
\<close>

fun updateLoop ::
  "Dependencies \<Rightarrow> string \<Rightarrow> bool \<Rightarrow> string list \<Rightarrow> world \<Rightarrow> Summary \<Rightarrow> world \<times> Summary" where
  "updateLoop deps runID dryRun [] w summary = (w, summary)"
| "updateLoop deps runID dryRun (hash # rest) w summary =
     (let summary1 = summary\<lparr>Processed := Processed summary + 1\<rparr> in
      case onStore w (\<lambda>s. MarkCommitProcessed s hash ''pending'' [] [] []) of
        (w1, Some e) \<Rightarrow>
          updateLoop deps runID dryRun rest
            (discard w1 (\<lambda>s. LogRunEvent s runID hash ''error'' ''state''
                                ''failed to mark pending'' (Some [(''error'', Str e)])))
            (summary1\<lparr>Failed := Failed summary1 + 1\<rparr>)
      | (w1, None) \<Rightarrow>
          (case processSingleCommit deps w1 runID hash dryRun of
             (w2, st, Some e) \<Rightarrow>
               (let w3 = discard w2 (\<lambda>s. MarkCommitProcessed s hash ''failed'' e [] []);
                    w4 = discard w3 (\<lambda>s. LogRunEvent s runID hash ''error'' ''orchestrator''
                                            ''commit processing failed''
                                            (Some [(''error'', Str e)]))
                in updateLoop deps runID dryRun rest w4
                     (summary1\<lparr>Failed := Failed summary1 + 1\<rparr>))
           | (w2, st, None) \<Rightarrow>
               updateLoop deps runID dryRun rest w2
                 (if st = ''success'' then summary1\<lparr>Success := Success summary1 + 1\<rparr>
                  else if st = ''skipped'' then summary1\<lparr>Skipped := Skipped summary1 + 1\<rparr>
                  else summary1\<lparr>Failed := Failed summary1 + 1\<rparr>)))"

definition UpdateCommitList ::
  "Dependencies \<Rightarrow> world \<Rightarrow> string list \<Rightarrow> bool \<Rightarrow> world \<times> (string + Summary)" where
  "UpdateCommitList deps w commitHashes dryRun =
     (let runID = ''run-'' @ itoa (UnixNano (Platform deps));
          w1 = discard w (\<lambda>s. LogRunEvent s runID [] ''info'' ''orchestrator''
                                 ''update loop started''
                                 (Some [(''commits'', Num (int (length commitHashes)))]))
      in case updateLoop deps runID dryRun commitHashes w1
                \<lparr>Processed = 0, Success = 0, Failed = 0, Skipped = 0\<rparr> of
           (w2, summary) \<Rightarrow>
             (discard w2 (\<lambda>s. LogRunEvent s runID [] ''info'' ''orchestrator''
                                 ''update loop finished''
                                 (Some [(''failed'', Num (Failed summary)),
                                        (''processed'', Num (Processed summary)),
                                        (''skipped'', Num (Skipped summary)),
                                        (''success'', Num (Success summary))])),
              Inr summary))"

definition UpdateNewCommits :: "Dependencies \<Rightarrow> world \<Rightarrow> bool \<Rightarrow> world \<times> (string + Summary)" where
  "UpdateNewCommits deps w dryRun =
     (case onStore w GetResumableCommits of
        (w1, Inl e) \<Rightarrow> (w1, Inl e)
      | (w1, Inr resumableCommits) \<Rightarrow>
     (case onStore w1 GetLastProcessedCommit of
        (w2, Inl e) \<Rightarrow> (w2, Inl e)
      | (w2, Inr lastCommit) \<Rightarrow>
     (case GetCurrentHEAD (GitHelper deps) of
        Inl e \<Rightarrow> (w2, Inl e)
      | Inr head \<Rightarrow>
     (case GetLastProcessedRange (GitHelper deps) lastCommit head of
        Inl e \<Rightarrow> (w2, Inl e)
      | Inr commits \<Rightarrow>
          UpdateCommitList deps w2 (mergeUnique resumableCommits (map Hash commits)) dryRun))))"

definition UpdateRangeCommits ::
  "Dependencies \<Rightarrow> world \<Rightarrow> string \<Rightarrow> string \<Rightarrow> bool \<Rightarrow> world \<times> (string + Summary)" where
  "UpdateRangeCommits deps w fromHash toHash dryRun =
     (case (if TrimSpace toHash = [] then GetCurrentHEAD (GitHelper deps)
            else Inr (TrimSpace toHash)) of
        Inl e \<Rightarrow> (w, Inl e)
      | Inr toCommit \<Rightarrow>
          (case GetLastProcessedRange (GitHelper deps) (TrimSpace fromHash) toCommit of
             Inl e \<Rightarrow> (w, Inl e)
           | Inr commits \<Rightarrow> UpdateCommitList deps w (map Hash commits) dryRun))"

section \<open>The resilient client (package llm)\<close>

text \<open>
  The context is read by \<open>ctx.Err()\<close> before each attempt and by the \<open>select\<close> of each wait:
  \<open>ctx k\<close> is what the \<open>k\<close>-th of these reads finds, \<open>None\<close> while the context is not
  cancelled. The state of a call of \<open>Generate\<close>: the number of calls made so far to each
  provider, by its index in the list, the durations handed to \<open>time.After\<close>, and the
  number of reads of the context.
\<close>

record ResilientClient =
  clients :: "Client list"
  maxRetries :: int

definition NewResilientClient :: "Client list \<Rightarrow> int \<Rightarrow> ResilientClient" where
  "NewResilientClient cs mr = \<lparr>clients = cs, maxRetries = (if mr < 0 then 0 else mr)\<rparr>"

record rstate =
  calls :: "nat \<Rightarrow> nat"
  waits :: "64 word list"
  polls :: nat








section \<open>The provider clients (package llm)\<close>

text \<open>
  What a provider's \<open>Generate\<close> sees of its HTTP exchange: an error of building or sending
  the request or of reading the body, or a reply with its status code, its body and the
  outcome of \<open>json.Unmarshal\<close> of the body into the struct the client declares.
\<close>

datatype 'p exchange = RequestFailed string | Reply int string "string + 'p"

record ChoiceMessage =
  MessageContent :: string

record Choice =
  ChoiceMessage :: ChoiceMessage

record ChatCompletion =
  Choices :: "Choice list"

definition OpenAIClient_Generate :: "ChatCompletion exchange \<Rightarrow> string + string" where
  "OpenAIClient_Generate x =
     (case x of
        RequestFailed e \<Rightarrow> Inl e
      | Reply statusCode body unmarshalled \<Rightarrow>
          if statusCode \<ge> 300 then Inl (''openai request failed: '' @ TrimSpace body)
          else case unmarshalled of
            Inl e \<Rightarrow> Inl e
          | Inr parsed \<Rightarrow>
              (case Choices parsed of
                 [] \<Rightarrow> Inl ''openai response has no choices''
               | c # _ \<Rightarrow> Inr (TrimSpace (MessageContent (ChoiceMessage c)))))"

definition GroqClient_Generate :: "ChatCompletion exchange \<Rightarrow> string + string" where
  "GroqClient_Generate x =
     (case x of
        RequestFailed e \<Rightarrow> Inl e
      | Reply statusCode body unmarshalled \<Rightarrow>
          if statusCode \<ge> 300 then Inl (''groq request failed: '' @ TrimSpace body)
          else case unmarshalled of
            Inl e \<Rightarrow> Inl e
          | Inr parsed \<Rightarrow>
              (case Choices parsed of
                 [] \<Rightarrow> Inl ''groq response has no choices''
               | c # _ \<Rightarrow>
                   if TrimSpace (MessageContent (ChoiceMessage c)) = []
                   then Inl ''groq response has no choices''
                   else Inr (TrimSpace (MessageContent (ChoiceMessage c)))))"

record OllamaReply =
  OllamaResponse :: string

definition OllamaClient_Generate :: "OllamaReply exchange \<Rightarrow> string + string" where
  "OllamaClient_Generate x =
     (case x of
        RequestFailed e \<Rightarrow> Inl e
      | Reply statusCode body unmarshalled \<Rightarrow>
          if statusCode \<ge> 300 then Inl (''ollama request failed: '' @ TrimSpace body)
          else case unmarshalled of
            Inl e \<Rightarrow> Inl e
          | Inr parsed \<Rightarrow>
              if TrimSpace (OllamaResponse parsed) = [] then Inl ''ollama response is empty''
              else Inr (TrimSpace (OllamaResponse parsed)))"

record ContentBlock =
  BlockType :: string
  BlockText :: string

record AnthropicReply =
  ReplyContent :: "ContentBlock list"

fun firstTextBlock :: "ContentBlock list \<Rightarrow> string + string" where
  "firstTextBlock [] = Inl ''anthropic response has no text content''"
| "firstTextBlock (b # bs) =
     (if BlockType b = ''text'' \<and> TrimSpace (BlockText b) \<noteq> [] then Inr (TrimSpace (BlockText b))
      else firstTextBlock bs)"

definition AnthropicClient_Generate :: "AnthropicReply exchange \<Rightarrow> string + string" where
  "AnthropicClient_Generate x =
     (case x of
        RequestFailed e \<Rightarrow> Inl e
      | Reply statusCode body unmarshalled \<Rightarrow>
          if statusCode \<ge> 300 then Inl (''anthropic request failed: '' @ TrimSpace body)
          else case unmarshalled of
            Inl e \<Rightarrow> Inl e
          | Inr parsed \<Rightarrow> firstTextBlock (ReplyContent parsed))"

record Part =
  PartText :: string

record Candidate =
  Parts :: "Part list"

record GeminiReply =
  Candidates :: "Candidate list"

fun firstPart :: "Part list \<Rightarrow> string option" where
  "firstPart [] = None"
| "firstPart (p # ps) =
     (if TrimSpace (PartText p) \<noteq> [] then Some (TrimSpace (PartText p)) else firstPart ps)"

fun firstCandidate :: "Candidate list \<Rightarrow> string + string" where
  "firstCandidate [] = Inl ''gemini response has no text content''"
| "firstCandidate (c # cs) =
     (case firstPart (Parts c) of Some t \<Rightarrow> Inr t | None \<Rightarrow> firstCandidate cs)"

definition GeminiClient_Generate :: "GeminiReply exchange \<Rightarrow> string + string" where
  "GeminiClient_Generate x =
     (case x of
        RequestFailed e \<Rightarrow> Inl e
      | Reply statusCode body unmarshalled \<Rightarrow>
          if statusCode \<ge> 300 then Inl (''gemini request failed: '' @ TrimSpace body)
          else case unmarshalled of
            Inl e \<Rightarrow> Inl e
          | Inr parsed \<Rightarrow> firstCandidate (Candidates parsed))"

definition MockClient_Generate :: "string \<Rightarrow> string + string" where
  "MockClient_Generate prompt =
     (let line = TrimSpace prompt in
      if line = [] then Inr ''No changes detected.''
      else Inr (''- Auto-generated update'' @ [CHR 0x0A, CHR 0x0A] @
                (if length line > 180 then take 180 line else line)))"

section \<open>Test doubles and auxiliary notions\<close>

text \<open>The next database statement is not made to fail.\<close>

definition nextStatementRuns :: "Store \<Rightarrow> bool" where
  "nextStatementRuns s = (case faults s of [] \<Rightarrow> True | f # _ \<Rightarrow> f = None)"

text \<open>
  The world after the first steps of \<open>processSingleCommit\<close> when the store works: the commit
  is marked \<open>in_progress\<close> and the planned update is recorded.
\<close>

definition afterPlanned :: "world \<Rightarrow> string \<Rightarrow> string \<Rightarrow> string \<Rightarrow> world" where
  "afterPlanned w hash t sec =
     w\<lparr>store := (store w)
         \<lparr>processed_commits :=
            filter (\<lambda>r. commit_hash r \<noteq> hash) (processed_commits (store w)) @
            [\<lparr>commit_hash = hash, status = ''in_progress'', error = None,
              doc_commit_hash = None, doc_files_changed = []\<rparr>],
          planned_updates := (planned_updates (store w))((hash, t, sec) \<mapsto>
            \<lparr>strategy = ''inferred'', plan_status = ''planned'', reason = None\<rparr>)\<rparr>\<rparr>"

text \<open>
  The set-up of the repository's orchestrator tests (\<open>testutil_test.go\<close>): the default
  configuration with \<open>README.md\<close> as the only doc-file and no documentation commits, a
  helper answering from fixed tables, a client with a fixed answer, an empty store.
\<close>

definition testConfig :: Config where
  "testConfig =
     \<lparr>LLM = \<lparr>Provider = ''mock'', APIKey = [], Model = ''gpt-4o-mini'', Timeout = 60,
             MaxRetries = 3, FailoverEnabled = True, FallbackProviders = []\<rparr>,
      DocFiles = [''README.md''],
      Mappings = [],
      Git = \<lparr>CommitDocUpdates = False, AmendOriginal = False,
             DocCommitMessage = ''docs: auto-update for {hash}''\<rparr>,
      State = \<lparr>DBPath = ''.git-doc/state.db''\<rparr>,
      Runtime = \<lparr>DefaultSection = ''Recent Changes''\<rparr>\<rparr>"

definition fakeGitHelper :: Helper where
  "fakeGitHelper =
     \<lparr>GetRepoRoot = Inr ''/repo'',
      GetCurrentHEAD = Inr ''c1'',
      GetLastProcessedRange = (\<lambda>fromHash toHash.
        Inr [\<lparr>Hash = ''c1'', Author = ''bot'', Email = ''bot@example.com'', Timestamp = 0,
              Subject = ''range commit''\<rparr>]),
      GetCommitDiff = (\<lambda>commit. Inr ''+new''),
      GetCommitMessage = (\<lambda>commit. Inr ''feat: add thing''),
      GetChangedFiles = (\<lambda>commit. if commit = ''c1'' then Inr [''src/a.txt''] else Inr []),
      StageAndCommit = (\<lambda>files message. Inr []),
      StageAndAmend = (\<lambda>files. Inr ''amended-hash''),
      RevertCommit = (\<lambda>commit. None)\<rparr>"

definition testDeps :: "(string \<Rightarrow> string \<Rightarrow> string \<Rightarrow> string + string) \<Rightarrow> string \<Rightarrow> Dependencies" where
  "testDeps replace answer =
     \<lparr>Config = testConfig,
      GitHelper = fakeGitHelper,
      DocUpdater = \<lparr>ExtractSection = (\<lambda>content section. Inl ''not used''),
                    ReplaceSection = replace\<rparr>,
      LLMClient = \<lparr>Name = ''mock'', Generate = (\<lambda>called prompt. Inr answer)\<rparr>,
      Platform = \<lparr>Sum256 = (\<lambda>prompt. ''digest''),
                  Join = (\<lambda>root name. root @ ''/'' @ name),
                  UnixNano = 1700000000000000000,
                  ParseUnifiedDiff = (\<lambda>raw. Inr \<lparr>Files = []\<rparr>),
                  writeFault = (\<lambda>path content. None)\<rparr>\<rparr>"

definition emptyStore :: Store where
  "emptyStore =
     \<lparr>faults = [], processed_commits = [], mappings = [], planned_updates = Map.empty,
      llm_cache = Map.empty, run_events = []\<rparr>"

definition testWorld :: world where
  "testWorld =
     \<lparr>store = emptyStore,
      fs = (\<lambda>path. if path = ''/repo/README.md'' then Content ''# T'' else NoFile),
      fileWrites = [], gitCalls = [], llmCalls = []\<rparr>"


section \<open>The specification's wording, for comparison\<close>

text \<open>
  Target resolution as the specification words it: the pattern is matched "stripped of
  wildcard markers", so that \<open>"src/*.go"\<close> becomes \<open>"src/.go"\<close>.
\<close>

definition stripWildcards :: "string \<Rightarrow> string" where
  "stripWildcards pattern = filter (\<lambda>c. c \<noteq> CHR ''*'') pattern"

definition resolveTarget_spec :: "Config \<Rightarrow> string list \<Rightarrow> string \<times> string" where
  "resolveTarget_spec cfg changedFiles =
     (case find (\<lambda>(changed, m). Contains changed (stripWildcards (CodePattern m)))
             (List.product changedFiles (Mappings cfg)) of
        Some (changed, m) \<Rightarrow> (DocFile m, Section m)
      | None \<Rightarrow>
          (case DocFiles cfg of
             d # _ \<Rightarrow> (d, DefaultSection (Runtime cfg))
           | [] \<Rightarrow> (''README.md'', DefaultSection (Runtime cfg))))"

text \<open>
  Validation as the specification words it: a content is rejected when it is empty or
  white space only, or longer than 25000 characters. The characters of a UTF-8 text are
  counted by \<open>runeCount\<close>, the bytes that do not continue a character.
\<close>

definition runeCount :: "string \<Rightarrow> nat" where
  "runeCount s = length (filter (\<lambda>c. \<not> (128 \<le> (of_char c :: nat) \<and> (of_char c :: nat) < 192)) s)"

definition rejected_spec :: "string \<Rightarrow> bool" where
  "rejected_spec content = (TrimSpace content = [] \<or> runeCount content > 25000)"

section \<open>Properties of the string functions\<close>

lemma trimLeftRunes_Nil: "trimLeftRunes rs [] = []"
proof -
  have "find (\<lambda>e. e \<noteq> [] \<and> prefix e []) rs = None"
    by (simp add: find_None_iff)
  then show ?thesis
    by (simp add: trimLeftRunes.simps)
qed

lemma TrimSpace_Nil: "TrimSpace [] = []"
  by (simp add: TrimSpace_def trimLeftRunes_Nil)

lemma trimLeftRunes_stop:
  "find (\<lambda>e. e \<noteq> [] \<and> prefix e s) rs = None \<Longrightarrow> trimLeftRunes rs s = s"
  by (simp add: trimLeftRunes.simps)

lemma trimLeftRunes_step:
  "find (\<lambda>e. e \<noteq> [] \<and> prefix e s) rs = Some e \<Longrightarrow>
   trimLeftRunes rs s = trimLeftRunes rs (drop (length e) s)"
  by (subst trimLeftRunes.simps) simp

section \<open>Target resolution\<close>

lemma matchMappings_find:
  "matchMappings changed ms =
     map_option (\<lambda>m. (DocFile m, Section m))
       (find (\<lambda>m. Contains changed (Trim (CodePattern m) ''*'')) ms)"
  by (induction ms) auto

lemma find_map_Pair:
  "find (\<lambda>(c, m). P c m) (map (Pair x) ms) = map_option (Pair x) (find (P x) ms)"
  by (induction ms) auto

lemma find_append_case:
  "find P (xs @ ys) = (case find P xs of Some x \<Rightarrow> Some x | None \<Rightarrow> find P ys)"
  by (induction xs) auto

lemma matchChanged_find:
  "matchChanged files ms =
     map_option (\<lambda>(c, m). (DocFile m, Section m))
       (find (\<lambda>(c, m). Contains c (Trim (CodePattern m) ''*'')) (List.product files ms))"
proof (induction files)
  case Nil
  then show ?case by simp
next
  case (Cons f files)
  show ?case
    by (simp add: find_append_case find_map_Pair matchMappings_find Cons.IH
        split: option.splits)
qed

text \<open>
  C4 (as amended). The resolved target is that of the first pair, changed files first and
  mappings second, in which the changed path contains the mapping's pattern with its
  leading and trailing asterisks removed (\<^const>\<open>Trim\<close>; asterisks inside the pattern stay).
  With no such pair it is the first configured doc-file, or \<open>README.md\<close> when none is
  configured, with the default section.
\<close>

theorem resolveTarget_first_match:
  "resolveTarget cfg changedFiles =
     (case find (\<lambda>(changed, m). Contains changed (Trim (CodePattern m) ''*''))
             (List.product changedFiles (Mappings cfg)) of
        Some (changed, m) \<Rightarrow> (DocFile m, Section m)
      | None \<Rightarrow>
          (case DocFiles cfg of
             d # _ \<Rightarrow> (d, DefaultSection (Runtime cfg))
           | [] \<Rightarrow> (''README.md'', DefaultSection (Runtime cfg))))"
  by (simp add: resolveTarget_def matchChanged_find split: option.splits prod.splits)

theorem resolveTarget_first_match_witness:
  "resolveTarget
     \<lparr>LLM = \<lparr>Provider = ''mock'', APIKey = [], Model = ''gpt-4o-mini'', Timeout = 60,
             MaxRetries = 3, FailoverEnabled = True, FallbackProviders = []\<rparr>,
      DocFiles = [''README.md''],
      Mappings = [\<lparr>CodePattern = ''docs/*'', DocFile = ''docs/index.md'', Section = ''Docs''\<rparr>,
                  \<lparr>CodePattern = ''*.go'', DocFile = ''docs/api.md'', Section = ''API''\<rparr>],
      Git = \<lparr>CommitDocUpdates = True, AmendOriginal = False,
             DocCommitMessage = ''docs: auto-update for {hash}''\<rparr>,
      State = \<lparr>DBPath = ''.git-doc/state.db''\<rparr>,
      Runtime = \<lparr>DefaultSection = ''Recent Changes''\<rparr>\<rparr>
     [''Makefile'', ''src/a.go'', ''docs/x.md''] = (''docs/api.md'', ''API'')"
  by (subst resolveTarget_first_match) (simp add: Trim_def)

text \<open>
  The claim as stated fails: the pattern \<open>"src/*.go"\<close> is not matched as \<open>"src/.go"\<close>.
  For the changed path \<open>"src/.go"\<close> the specification's rule selects the mapping, the
  program falls back to the first doc-file.
\<close>

theorem resolveTarget_interior_wildcard_counterexample:
  "resolveTarget
     \<lparr>LLM = \<lparr>Provider = ''mock'', APIKey = [], Model = ''gpt-4o-mini'', Timeout = 60,
             MaxRetries = 3, FailoverEnabled = True, FallbackProviders = []\<rparr>,
      DocFiles = [''README.md''],
      Mappings = [\<lparr>CodePattern = ''src/*.go'', DocFile = ''docs/api.md'', Section = ''API''\<rparr>],
      Git = \<lparr>CommitDocUpdates = True, AmendOriginal = False,
             DocCommitMessage = ''docs: auto-update for {hash}''\<rparr>,
      State = \<lparr>DBPath = ''.git-doc/state.db''\<rparr>,
      Runtime = \<lparr>DefaultSection = ''Recent Changes''\<rparr>\<rparr>
     [''src/.go''] = (''README.md'', ''Recent Changes'')
   \<and> resolveTarget_spec
     \<lparr>LLM = \<lparr>Provider = ''mock'', APIKey = [], Model = ''gpt-4o-mini'', Timeout = 60,
             MaxRetries = 3, FailoverEnabled = True, FallbackProviders = []\<rparr>,
      DocFiles = [''README.md''],
      Mappings = [\<lparr>CodePattern = ''src/*.go'', DocFile = ''docs/api.md'', Section = ''API''\<rparr>],
      Git = \<lparr>CommitDocUpdates = True, AmendOriginal = False,
             DocCommitMessage = ''docs: auto-update for {hash}''\<rparr>,
      State = \<lparr>DBPath = ''.git-doc/state.db''\<rparr>,
      Runtime = \<lparr>DefaultSection = ''Recent Changes''\<rparr>\<rparr>
     [''src/.go''] = (''docs/api.md'', ''API'')
   \<and> Trim ''src/*.go'' ''*'' = ''src/*.go''"
  by (simp add: resolveTarget_def resolveTarget_spec_def stripWildcards_def Trim_def)

section \<open>Trimming, continued\<close>

lemma trimLeftRunes_fixed:
  "find (\<lambda>e. e \<noteq> [] \<and> prefix e (trimLeftRunes rs s)) rs = None"
proof (induction rs s rule: trimLeftRunes.induct)
  case (1 rs s)
  show ?case
  proof (cases "find (\<lambda>e. e \<noteq> [] \<and> prefix e s) rs")
    case None
    then show ?thesis by (simp add: trimLeftRunes.simps)
  next
    case (Some e)
    with "1.IH" [OF Some] show ?thesis
      by (subst trimLeftRunes.simps) simp
  qed
qed

lemma trimLeftRunes_suffix: "suffix (trimLeftRunes rs s) s"
proof (induction rs s rule: trimLeftRunes.induct)
  case (1 rs s)
  show ?case
  proof (cases "find (\<lambda>e. e \<noteq> [] \<and> prefix e s) rs")
    case None
    then show ?thesis by (simp add: trimLeftRunes.simps)
  next
    case (Some e)
    have "suffix (trimLeftRunes rs (drop (length e) s)) (drop (length e) s)"
      using "1.IH" [OF Some] .
    moreover have "suffix (drop (length e) s) s"
      by (rule suffix_drop)
    ultimately have "suffix (trimLeftRunes rs (drop (length e) s)) s"
      by (rule suffix_order.trans)
    with Some show ?thesis
      by (subst trimLeftRunes.simps) simp
  qed
qed

lemma trimLeftRunes_idem: "trimLeftRunes rs (trimLeftRunes rs s) = trimLeftRunes rs s"
  by (rule trimLeftRunes_stop) (rule trimLeftRunes_fixed)

lemma TrimSpace_prefix: "prefix (TrimSpace s) (trimLeftRunes spaceRunes s)"
proof -
  have "suffix (trimLeftRunes (map rev spaceRunes) (rev (trimLeftRunes spaceRunes s)))
          (rev (trimLeftRunes spaceRunes s))"
    by (rule trimLeftRunes_suffix)
  then show ?thesis
    by (simp add: TrimSpace_def suffix_to_prefix)
qed

text \<open>Trimming a trimmed string changes nothing.\<close>

lemma TrimSpace_idem: "TrimSpace (TrimSpace s) = TrimSpace s"
proof -
  let ?u = "trimLeftRunes spaceRunes s"
  have none: "find (\<lambda>e. e \<noteq> [] \<and> prefix e ?u) spaceRunes = None"
    by (rule trimLeftRunes_fixed)
  have "find (\<lambda>e. e \<noteq> [] \<and> prefix e (TrimSpace s)) spaceRunes = None"
  proof -
    have "\<not> (e \<noteq> [] \<and> prefix e (TrimSpace s))" if "e \<in> set spaceRunes" for e
    proof
      assume a: "e \<noteq> [] \<and> prefix e (TrimSpace s)"
      then have "prefix e ?u"
        using TrimSpace_prefix [of s] prefix_order.trans by blast
      with a that none show False
        by (auto simp: find_None_iff)
    qed
    then show ?thesis
      by (auto simp: find_None_iff)
  qed
  then have left: "trimLeftRunes spaceRunes (TrimSpace s) = TrimSpace s"
    by (rule trimLeftRunes_stop)
  show ?thesis
    unfolding TrimSpace_def [of "TrimSpace s"] left
    by (simp add: TrimSpace_def trimLeftRunes_idem)
qed

text \<open>Concrete strings, for the examples below.\<close>

lemma TrimSpace_blank: "TrimSpace ''  '' = []"
  by (simp add: TrimSpace_def trimLeftRunes.simps spaceRunes_def)

lemma TrimSpace_answer: "TrimSpace ''- new'' = ''- new''"
  by (simp add: TrimSpace_def trimLeftRunes.simps spaceRunes_def)

lemma TrimSpace_title: "TrimSpace ''# T'' = ''# T''"
  by (simp add: TrimSpace_def trimLeftRunes.simps spaceRunes_def)

lemma TrimSpace_title_answer: "TrimSpace ''# T- new'' = ''# T- new''"
  by (simp add: TrimSpace_def trimLeftRunes.simps spaceRunes_def)

lemma NormalizeLineEndings_title:
  "NormalizeLineEndings ''# T'' (DetectLineEnding ''# T'') = ''# T''"
  "NormalizeLineEndings ''# T- new'' (DetectLineEnding ''# T'') = ''# T- new''"
  by (simp_all add: NormalizeLineEndings_def DetectLineEnding_def ReplaceAll_def)

lemma trimLeft_letter: "trimLeftRunes spaceRunes (CHR ''a'' # s) = CHR ''a'' # s"
  by (rule trimLeftRunes_stop) (simp add: spaceRunes_def)

lemma trimRight_letter: "trimLeftRunes (map rev spaceRunes) (CHR ''a'' # s) = CHR ''a'' # s"
  by (rule trimLeftRunes_stop) (simp add: spaceRunes_def)

lemma trimRight_newline:
  "trimLeftRunes (map rev spaceRunes) (CHR 0x0A # s) = trimLeftRunes (map rev spaceRunes) s"
  by (subst trimLeftRunes.simps) (simp add: spaceRunes_def)

lemma TrimSpace_letters_newline:
  "TrimSpace (replicate (Suc n) (CHR ''a'') @ [CHR 0x0A]) = replicate (Suc n) (CHR ''a'')"
proof -
  have "rev (replicate (Suc n) (CHR ''a'') @ [CHR 0x0A]) = CHR 0x0A # CHR ''a'' # replicate n (CHR ''a'')"
    by (simp add: replicate_append_same)
  moreover have "trimLeftRunes spaceRunes (replicate (Suc n) (CHR ''a'') @ [CHR 0x0A]) =
      replicate (Suc n) (CHR ''a'') @ [CHR 0x0A]"
    using trimLeft_letter [of "replicate n (CHR ''a'') @ [CHR 0x0A]"] by simp
  ultimately have "TrimSpace (replicate (Suc n) (CHR ''a'') @ [CHR 0x0A]) =
      rev (CHR ''a'' # replicate n (CHR ''a''))"
    unfolding TrimSpace_def by (simp only: trimRight_newline trimRight_letter)
  also have "\<dots> = replicate (Suc n) (CHR ''a'')"
    using replicate_append_same [of n "CHR ''a''"] by simp
  finally show ?thesis .
qed

lemma concat_replicate_Suc_right: "concat (replicate (Suc n) x) = concat (replicate n x) @ x"
  by (induction n) simp_all

lemma TrimSpace_wide:
  "TrimSpace (concat (replicate (Suc n) [CHR 0xE4, CHR 0xB8, CHR 0xAD])) =
   concat (replicate (Suc n) [CHR 0xE4, CHR 0xB8, CHR 0xAD])"
proof -
  let ?x = "[CHR 0xE4, CHR 0xB8, CHR 0xAD]"
  have l: "trimLeftRunes spaceRunes (concat (replicate (Suc n) ?x)) = concat (replicate (Suc n) ?x)"
    by (rule trimLeftRunes_stop) (simp add: spaceRunes_def)
  have "rev (concat (replicate (Suc n) ?x)) = CHR 0xAD # CHR 0xB8 # CHR 0xE4 # rev (concat (replicate n ?x))"
    by (simp only: concat_replicate_Suc_right rev_append) simp
  moreover have "trimLeftRunes (map rev spaceRunes)
        (CHR 0xAD # CHR 0xB8 # CHR 0xE4 # rev (concat (replicate n ?x))) =
      CHR 0xAD # CHR 0xB8 # CHR 0xE4 # rev (concat (replicate n ?x))"
    by (rule trimLeftRunes_stop) (simp add: spaceRunes_def)
  ultimately show ?thesis
    unfolding TrimSpace_def l by (metis rev_rev_ident)
qed

lemma length_wide: "length (concat (replicate n [CHR 0xE4, CHR 0xB8, CHR 0xAD])) = 3 * n"
  by (induction n) simp_all

lemma runeCount_wide: "runeCount (concat (replicate n [CHR 0xE4, CHR 0xB8, CHR 0xAD])) = n"
  by (induction n) (simp_all add: runeCount_def)

lemma runeCount_letters: "runeCount (replicate n (CHR ''a'') @ [CHR 0x0A]) = Suc n"
  by (induction n) (simp_all add: runeCount_def)

section \<open>The store\<close>

lemma statement_frame [simp]:
  "faults (fst (statement s)) = tl (faults s)"
  "processed_commits (fst (statement s)) = processed_commits s"
  "mappings (fst (statement s)) = mappings s"
  "planned_updates (fst (statement s)) = planned_updates s"
  "llm_cache (fst (statement s)) = llm_cache s"
  "run_events (fst (statement s)) = run_events s"
  by (simp_all add: statement_def split: list.splits)

lemma statement_ok: "faults s = [] \<Longrightarrow> statement s = (s, None)"
  by (simp add: statement_def)

lemma statement_runs: "nextStatementRuns s \<Longrightarrow> snd (statement s) = None"
  by (simp add: statement_def nextStatementRuns_def split: list.splits)

lemma valid_status [simp]:
  "''pending'' \<in> set validStatuses"
  "''in_progress'' \<in> set validStatuses"
  "''success'' \<in> set validStatuses"
  "''failed'' \<in> set validStatuses"
  "''skipped'' \<in> set validStatuses"
  by (simp_all add: validStatuses_def)

lemma onStore_frame:
  "fs (fst (onStore w f)) = fs w"
  "fileWrites (fst (onStore w f)) = fileWrites w"
  "gitCalls (fst (onStore w f)) = gitCalls w"
  "llmCalls (fst (onStore w f)) = llmCalls w"
  by (simp_all add: onStore_def split: prod.splits)

lemma discard_frame [simp]:
  "fs (discard w f) = fs w"
  "fileWrites (discard w f) = fileWrites w"
  "gitCalls (discard w f) = gitCalls w"
  "llmCalls (discard w f) = llmCalls w"
  by (simp_all add: discard_def onStore_frame)

lemma onStore_frame_eq:
  assumes "onStore w f = (w', r)"
  shows "fs w' = fs w" "fileWrites w' = fileWrites w" "gitCalls w' = gitCalls w"
    "llmCalls w' = llmCalls w"
  using assms onStore_frame [of w f] by simp_all

lemmas store_ops = MarkCommitProcessed_def UpsertPlannedUpdate_def StoreMapping_def
  LogRunEvent_def GetCachedLLMResponse_def PutCachedLLMResponse_def onStore_def discard_def
  statement_ok

lemma Put_cache:
  "PutCachedLLMResponse s entry = (s', None) \<Longrightarrow>
   llm_cache s' = (llm_cache s)((CommitHash entry, EntryDocFile entry, SectionID entry,
     EntryProvider entry, EntryModel entry, PromptHash entry) \<mapsto> Response entry)"
  by (auto simp: PutCachedLLMResponse_def case_prod_unfold split: if_splits option.splits)

lemma Get_runs:
  "nextStatementRuns s \<Longrightarrow>
   snd (GetCachedLLMResponse sum256 s c d sec prov m p) =
     (case llm_cache s (c, d, sec, prov, m, hashPrompt sum256 p) of
        None \<Rightarrow> ([], False, None)
      | Some r \<Rightarrow> (r, True, None))"
  using statement_runs [of s]
  by (simp add: GetCachedLLMResponse_def case_prod_unfold Let_def split: option.splits)

text \<open>
  C8. After \<open>PutCachedLLMResponse\<close> has succeeded for an entry whose prompt hash is the
  fingerprint of the prompt \<open>p\<close>, and the statement of the query runs, \<open>GetCachedLLMResponse\<close>
  with the entry's commit, doc-file, section, provider and model and with \<open>p\<close> returns the
  stored response with \<open>hit = true\<close> and no error. A query whose key differs from the entry's
  in any field (the fingerprint of its prompt being the sixth) is answered as the cache
  answered it before the entry was stored: with \<open>hit = false\<close> when nothing was stored under
  that key.
\<close>

theorem cache_round_trip:
  assumes "PutCachedLLMResponse s entry = (s', None)"
    and "PromptHash entry = hashPrompt sum256 p"
    and "nextStatementRuns s'"
  shows "snd (GetCachedLLMResponse sum256 s' (CommitHash entry) (EntryDocFile entry)
              (SectionID entry) (EntryProvider entry) (EntryModel entry) p) =
           (Response entry, True, None) \<and>
         ((c, d, sec, prov, m, hashPrompt sum256 q) \<noteq>
            (CommitHash entry, EntryDocFile entry, SectionID entry, EntryProvider entry,
             EntryModel entry, PromptHash entry) \<longrightarrow>
          snd (GetCachedLLMResponse sum256 s' c d sec prov m q) =
            (case llm_cache s (c, d, sec, prov, m, hashPrompt sum256 q) of
               None \<Rightarrow> ([], False, None)
             | Some r \<Rightarrow> (r, True, None)))"
  using Put_cache [OF assms(1)] assms(2) by (auto simp: Get_runs [OF assms(3)])

theorem cache_round_trip_witness:
  "snd (GetCachedLLMResponse (\<lambda>prompt. prompt)
          (emptyStore\<lparr>llm_cache := [(''c1'', ''README.md'', ''Recent Changes'', ''mock'',
             ''gpt-4o-mini'', ''70'') \<mapsto> ''- new'']\<rparr>)
          ''c1'' ''README.md'' ''Recent Changes'' ''mock'' ''gpt-4o-mini'' ''p'') =
     (''- new'', True, None) \<and>
   snd (GetCachedLLMResponse (\<lambda>prompt. prompt)
          (emptyStore\<lparr>llm_cache := [(''c1'', ''README.md'', ''Recent Changes'', ''mock'',
             ''gpt-4o-mini'', ''70'') \<mapsto> ''- new'']\<rparr>)
          ''c1'' ''README.md'' ''Recent Changes'' ''mock'' ''gpt-4o-mini'' ''q'') =
     ([], False, None)"
  using cache_round_trip [of emptyStore
      "\<lparr>CommitHash = ''c1'', EntryDocFile = ''README.md'', SectionID = ''Recent Changes'',
        EntryProvider = ''mock'', EntryModel = ''gpt-4o-mini'', PromptHash = ''70'',
        Response = ''- new''\<rparr>"
      "emptyStore\<lparr>llm_cache := [(''c1'', ''README.md'', ''Recent Changes'', ''mock'',
             ''gpt-4o-mini'', ''70'') \<mapsto> ''- new'']\<rparr>"
      "\<lambda>prompt. prompt" "''p''"
      "''c1''" "''README.md''" "''Recent Changes''" "''mock''" "''gpt-4o-mini''" "''q''"]
  by (simp add: PutCachedLLMResponse_def statement_def emptyStore_def nextStatementRuns_def
      hashPrompt_def hexByte_def hexDigit_def)

section \<open>The pipeline of one commit\<close>

lemma afterPlanned_simps [simp]:
  "faults (store (afterPlanned w hash t sec)) = faults (store w)"
  "llm_cache (store (afterPlanned w hash t sec)) = llm_cache (store w)"
  "fs (afterPlanned w hash t sec) = fs w"
  "fileWrites (afterPlanned w hash t sec) = fileWrites w"
  "gitCalls (afterPlanned w hash t sec) = gitCalls w"
  "llmCalls (afterPlanned w hash t sec) = llmCalls w"
  "filter (\<lambda>r. commit_hash r \<noteq> hash) (processed_commits (store (afterPlanned w hash t sec))) =
   filter (\<lambda>r. commit_hash r \<noteq> hash) (processed_commits (store w))"
  by (simp_all add: afterPlanned_def)

lemma validate_reason: "validateGeneratedSection c = Some r \<Longrightarrow> r \<noteq> []"
  by (auto simp: validateGeneratedSection_def Let_def split: if_splits)

text \<open>With a working store, a commit that has changed files and a readable target document
  reaches the generation step, and its outcome is that of the last two stages.\<close>

lemma processSingleCommit_reach:
  assumes "faults (store w) = []"
    and "GetChangedFiles (GitHelper deps) hash = Inr changedFiles" and "changedFiles \<noteq> []"
    and "GetCommitMessage (GitHelper deps) hash = Inr commitMessage"
    and "GetCommitDiff (GitHelper deps) hash = Inr diffContent"
    and "GetRepoRoot (GitHelper deps) = Inr repoRoot"
    and "resolveTarget (Config deps) changedFiles = (t, sec)"
    and "fs w (Join (Platform deps) repoRoot t) = Content docRaw"
  shows "processSingleCommit deps w runID hash dryRun =
     (case generateSection deps (afterPlanned w hash t sec) runID hash t sec
             (buildPrompt (Platform deps) commitMessage diffContent) of
        (w3, Inl e) \<Rightarrow> (w3, ''failed'', Some e)
      | (w3, Inr ns) \<Rightarrow>
          applySection deps w3 hash dryRun t sec (Join (Platform deps) repoRoot t) docRaw ns)"
  using assms
  by (simp add: processSingleCommit_def store_ops nullIfEmpty_def Let_def afterPlanned_def)

lemma generateSection_hit:
  assumes "faults (store w) = []"
    and "llm_cache (store w) (hash, t, sec, Name (LLMClient deps), Model (LLM (Config deps)),
           hashPrompt (Sum256 (Platform deps)) prompt) = Some c"
  shows "snd (generateSection deps w runID hash t sec prompt) = Inr c"
    and "faults (store (fst (generateSection deps w runID hash t sec prompt))) = []"
    and "planned_updates (store (fst (generateSection deps w runID hash t sec prompt))) =
         planned_updates (store w)"
    and "processed_commits (store (fst (generateSection deps w runID hash t sec prompt))) =
         processed_commits (store w)"
    and "fs (fst (generateSection deps w runID hash t sec prompt)) = fs w"
    and "fileWrites (fst (generateSection deps w runID hash t sec prompt)) = fileWrites w"
    and "gitCalls (fst (generateSection deps w runID hash t sec prompt)) = gitCalls w"
    and "llmCalls (fst (generateSection deps w runID hash t sec prompt)) = llmCalls w"
  using assms by (simp_all add: generateSection_def store_ops Let_def)

lemma generateSection_miss:
  assumes "faults (store w) = []"
    and "llm_cache (store w) (hash, t, sec, Name (LLMClient deps), Model (LLM (Config deps)),
           hashPrompt (Sum256 (Platform deps)) prompt) = None"
    and "Generate (LLMClient deps) (length (llmCalls w)) prompt = Inr g"
  shows "snd (generateSection deps w runID hash t sec prompt) = Inr g"
    and "faults (store (fst (generateSection deps w runID hash t sec prompt))) = []"
    and "planned_updates (store (fst (generateSection deps w runID hash t sec prompt))) =
         planned_updates (store w)"
    and "processed_commits (store (fst (generateSection deps w runID hash t sec prompt))) =
         processed_commits (store w)"
    and "fs (fst (generateSection deps w runID hash t sec prompt)) = fs w"
    and "fileWrites (fst (generateSection deps w runID hash t sec prompt)) = fileWrites w"
    and "gitCalls (fst (generateSection deps w runID hash t sec prompt)) = gitCalls w"
    and "llmCalls (fst (generateSection deps w runID hash t sec prompt)) = llmCalls w @ [prompt]"
  using assms by (simp_all add: generateSection_def store_ops Let_def)

lemma applySection_unchanged:
  assumes "faults (store w) = []"
    and "validateGeneratedSection ns = None"
    and "ReplaceSection (DocUpdater deps) docRaw sec ns = Inr replaced"
    and "TrimSpace (NormalizeLineEndings replaced (DetectLineEnding docRaw)) = TrimSpace docRaw"
  shows "\<exists>w'. applySection deps w hash dryRun t sec docPath docRaw ns = (w', ''skipped'', None) \<and>
    planned_updates (store w') (hash, t, sec) =
      Some \<lparr>strategy = ''inferred'', plan_status = ''unchanged'',
            reason = Some ''no document delta''\<rparr> \<and>
    processed_commits (store w') =
      filter (\<lambda>r. commit_hash r \<noteq> hash) (processed_commits (store w)) @
      [\<lparr>commit_hash = hash, status = ''skipped'', error = None, doc_commit_hash = None,
        doc_files_changed = []\<rparr>] \<and>
    fs w' = fs w \<and> fileWrites w' = fileWrites w \<and> gitCalls w' = gitCalls w \<and>
    llmCalls w' = llmCalls w"
  using assms by (simp add: applySection_def store_ops nullIfEmpty_def Let_def)

lemma applySection_dry:
  assumes "faults (store w) = []"
    and "validateGeneratedSection ns = None"
    and "ReplaceSection (DocUpdater deps) docRaw sec ns = Inr replaced"
    and "TrimSpace (NormalizeLineEndings replaced (DetectLineEnding docRaw)) \<noteq> TrimSpace docRaw"
  shows "\<exists>w'. applySection deps w hash True t sec docPath docRaw ns = (w', ''success'', None) \<and>
    planned_updates (store w') (hash, t, sec) =
      Some \<lparr>strategy = ''inferred'', plan_status = ''applied'', reason = Some ''dry-run''\<rparr> \<and>
    processed_commits (store w') =
      filter (\<lambda>r. commit_hash r \<noteq> hash) (processed_commits (store w)) @
      [\<lparr>commit_hash = hash, status = ''success'', error = None, doc_commit_hash = None,
        doc_files_changed = [t]\<rparr>] \<and>
    fs w' = fs w \<and> fileWrites w' = fileWrites w \<and> gitCalls w' = gitCalls w \<and>
    llmCalls w' = llmCalls w"
  using assms by (simp add: applySection_def store_ops nullIfEmpty_def Let_def)

lemma applySection_rejected:
  assumes "faults (store w) = []"
    and "validateGeneratedSection ns = Some r"
  shows "\<exists>w'. applySection deps w hash dryRun t sec docPath docRaw ns = (w', ''failed'', Some r) \<and>
    planned_updates (store w') (hash, t, sec) =
      Some \<lparr>strategy = ''inferred'', plan_status = ''failed'', reason = Some r\<rparr> \<and>
    processed_commits (store w') = processed_commits (store w) \<and>
    fs w' = fs w \<and> fileWrites w' = fileWrites w \<and> gitCalls w' = gitCalls w \<and>
    llmCalls w' = llmCalls w"
  using assms validate_reason [OF assms(2)]
  by (simp add: applySection_def store_ops nullIfEmpty_def Let_def)

text \<open>What no stage touches.\<close>

lemma AtomicWriteFile_llmCalls [simp]:
  "llmCalls (fst (AtomicWriteFile pf w p c)) = llmCalls w"
  by (simp add: AtomicWriteFile_def Let_def split: option.splits)

lemma stageDocs_llmCalls [simp]: "llmCalls (fst (stageDocs deps w h t)) = llmCalls w"
  by (simp add: stageDocs_def Let_def)

lemma onStore_llmCalls [simp]: "llmCalls (fst (onStore w f)) = llmCalls w"
  by (simp add: onStore_frame)

lemma writeAndCommit_llmCalls [simp]:
  "llmCalls (fst (writeAndCommit deps w hash t sec docPath updated)) = llmCalls w"
  by (simp add: writeAndCommit_def case_prod_unfold Let_def split: option.splits sum.splits)

lemma applySection_llmCalls:
  "llmCalls (fst (applySection deps w hash dryRun t sec docPath docRaw ns)) = llmCalls w"
  by (simp add: applySection_def case_prod_unfold Let_def split: option.splits sum.splits)

lemma generateSection_frame:
  "fs (fst (generateSection deps w runID hash t sec prompt)) = fs w"
  "fileWrites (fst (generateSection deps w runID hash t sec prompt)) = fileWrites w"
  "gitCalls (fst (generateSection deps w runID hash t sec prompt)) = gitCalls w"
  by (simp_all add: generateSection_def case_prod_unfold Let_def onStore_frame
      split: option.splits sum.splits)

lemma writeAndCommit_status:
  "fst (snd (writeAndCommit deps w hash t sec docPath updated)) \<noteq> ''skipped''"
  by (simp add: writeAndCommit_def case_prod_unfold Let_def split: option.splits sum.splits)

lemma applySection_frame:
  assumes "dryRun \<or> fst (snd (applySection deps w hash dryRun t sec docPath docRaw ns)) = ''skipped''"
  shows "fs (fst (applySection deps w hash dryRun t sec docPath docRaw ns)) = fs w"
    and "fileWrites (fst (applySection deps w hash dryRun t sec docPath docRaw ns)) = fileWrites w"
    and "gitCalls (fst (applySection deps w hash dryRun t sec docPath docRaw ns)) = gitCalls w"
  using assms writeAndCommit_status [of deps w hash t sec docPath]
  by (auto simp add: applySection_def case_prod_unfold Let_def onStore_frame
      split: option.splits sum.splits if_splits)

lemma processSingleCommit_frame:
  assumes "dryRun \<or> fst (snd (processSingleCommit deps w runID hash dryRun)) = ''skipped''"
  shows "fs (fst (processSingleCommit deps w runID hash dryRun)) = fs w"
    and "fileWrites (fst (processSingleCommit deps w runID hash dryRun)) = fileWrites w"
    and "gitCalls (fst (processSingleCommit deps w runID hash dryRun)) = gitCalls w"
  using assms
  by (auto simp add: processSingleCommit_def case_prod_unfold Let_def onStore_frame
      generateSection_frame applySection_frame
      split: option.splits sum.splits if_splits file_state.splits)

text \<open>
  C5. A commit with changed files whose resolved target document is not on disk yields the
  status \<open>failed\<close> with an error, and the generation client is not called for it: the calls
  made to the client are those made before. The error is the text
  \<open>target doc file not found: \<close> followed by the name of the document; only when the store
  refuses the first statement of the commit (marking it \<open>in_progress\<close>) is it the store's
  error instead, returned before the document is looked for.
\<close>

theorem missing_doc:
  assumes "GetChangedFiles (GitHelper deps) hash = Inr changedFiles" and "changedFiles \<noteq> []"
    and "GetCommitMessage (GitHelper deps) hash = Inr commitMessage"
    and "GetCommitDiff (GitHelper deps) hash = Inr diffContent"
    and "GetRepoRoot (GitHelper deps) = Inr repoRoot"
    and "resolveTarget (Config deps) changedFiles = (targetDocFile, targetSection)"
    and "fs w (Join (Platform deps) repoRoot targetDocFile) = NoFile"
  shows "case processSingleCommit deps w runID hash dryRun of
           (w', st, err) \<Rightarrow>
             st = ''failed'' \<and> llmCalls w' = llmCalls w \<and> err \<noteq> None \<and>
             (nextStatementRuns (store w) \<longrightarrow>
                err = Some (''target doc file not found: '' @ targetDocFile))"
proof (cases "onStore w (\<lambda>s. MarkCommitProcessed s hash ''in_progress'' [] [] [])")
  case (Pair w1 r)
  note fr = onStore_frame_eq [OF Pair]
  show ?thesis
  proof (cases r)
    case None
    with Pair assms fr show ?thesis
      by (simp add: processSingleCommit_def)
  next
    case (Some e)
    have "\<not> nextStatementRuns (store w)"
      using Pair Some
      by (auto simp: onStore_def MarkCommitProcessed_def statement_def nextStatementRuns_def
          validStatuses_def split: list.splits option.splits if_splits)
    with Pair Some fr show ?thesis
      by (simp add: processSingleCommit_def)
  qed
qed

theorem missing_doc_witness:
  "(case processSingleCommit (testDeps (\<lambda>content section new. Inr content) ''- new'')
           (testWorld\<lparr>fs := (\<lambda>path. NoFile)\<rparr>) ''run-1'' ''c1'' False of
      (w', st, err) \<Rightarrow>
        st = ''failed'' \<and> llmCalls w' = [] \<and>
        err = Some ''target doc file not found: README.md'')"
  using missing_doc [where deps = "testDeps (\<lambda>content section new. Inr content) ''- new''"
      and hash = "''c1''" and changedFiles = "[''src/a.txt'']"
      and commitMessage = "''feat: add thing''" and diffContent = "''+new''"
      and repoRoot = "''/repo''" and targetDocFile = "''README.md''"
      and targetSection = "''Recent Changes''" and w = "testWorld\<lparr>fs := (\<lambda>path. NoFile)\<rparr>"
      and runID = "''run-1''" and dryRun = False]
  by (simp add: testDeps_def fakeGitHelper_def testConfig_def resolveTarget_def testWorld_def
      emptyStore_def nextStatementRuns_def split: prod.splits)

text \<open>
  C6. Take a commit that reaches the generation step with a working store and for which a
  section is obtained, from the cache or from the client, that passes validation. If the
  document with the section replaced, its line endings normalized, equals the original
  document once both are trimmed of leading and trailing whitespace, then the commit ends
  with the status \<open>skipped\<close> and no error, its planned update is recorded \<open>unchanged\<close>, its row
  of processed commits is \<open>skipped\<close> with an empty list of changed files, no file is written
  and neither \<open>StageAndCommit\<close> nor \<open>StageAndAmend\<close> is called.
\<close>

theorem noop_change:
  assumes nofault: "faults (store w) = []"
    and reach: "GetChangedFiles (GitHelper deps) hash = Inr changedFiles" "changedFiles \<noteq> []"
      "GetCommitMessage (GitHelper deps) hash = Inr commitMessage"
      "GetCommitDiff (GitHelper deps) hash = Inr diffContent"
      "GetRepoRoot (GitHelper deps) = Inr repoRoot"
      "resolveTarget (Config deps) changedFiles = (t, sec)"
      "fs w (Join (Platform deps) repoRoot t) = Content docRaw"
    and prompt: "prompt = buildPrompt (Platform deps) commitMessage diffContent"
    and gen: "llm_cache (store w) (hash, t, sec, Name (LLMClient deps), Model (LLM (Config deps)),
                hashPrompt (Sum256 (Platform deps)) prompt) = Some newSection \<or>
              llm_cache (store w) (hash, t, sec, Name (LLMClient deps), Model (LLM (Config deps)),
                hashPrompt (Sum256 (Platform deps)) prompt) = None \<and>
              Generate (LLMClient deps) (length (llmCalls w)) prompt = Inr newSection"
    and valid: "validateGeneratedSection newSection = None"
    and repl: "ReplaceSection (DocUpdater deps) docRaw sec newSection = Inr replaced"
    and same: "TrimSpace (NormalizeLineEndings replaced (DetectLineEnding docRaw)) =
               TrimSpace docRaw"
  shows "case processSingleCommit deps w runID hash dryRun of
           (w', st, err) \<Rightarrow>
             st = ''skipped'' \<and> err = None \<and>
             planned_updates (store w') (hash, t, sec) =
               Some \<lparr>strategy = ''inferred'', plan_status = ''unchanged'',
                     reason = Some ''no document delta''\<rparr> \<and>
             processed_commits (store w') =
               filter (\<lambda>r. commit_hash r \<noteq> hash) (processed_commits (store w)) @
               [\<lparr>commit_hash = hash, status = ''skipped'', error = None,
                 doc_commit_hash = None, doc_files_changed = []\<rparr>] \<and>
             fs w' = fs w \<and> fileWrites w' = fileWrites w \<and> gitCalls w' = gitCalls w"
proof -
  let ?w2 = "afterPlanned w hash t sec"
  let ?g = "generateSection deps ?w2 runID hash t sec prompt"
  have f2: "faults (store ?w2) = []"
    using nofault by simp
  have g: "snd ?g = Inr newSection \<and> faults (store (fst ?g)) = [] \<and>
      processed_commits (store (fst ?g)) = processed_commits (store ?w2) \<and>
      fs (fst ?g) = fs ?w2 \<and> fileWrites (fst ?g) = fileWrites ?w2 \<and>
      gitCalls (fst ?g) = gitCalls ?w2"
  proof (cases "llm_cache (store w) (hash, t, sec, Name (LLMClient deps),
      Model (LLM (Config deps)), hashPrompt (Sum256 (Platform deps)) prompt)")
    case None
    with gen have "Generate (LLMClient deps) (length (llmCalls ?w2)) prompt = Inr newSection"
      by simp
    from generateSection_miss [OF f2 _ this, of hash t sec runID] None show ?thesis
      by simp
  next
    case (Some c)
    with gen have "c = newSection"
      by simp
    with generateSection_hit [OF f2, of hash t sec deps prompt c runID] Some show ?thesis
      by simp
  qed
  obtain w3 where w3: "?g = (w3, Inr newSection)"
    using g by (cases ?g) auto
  with g have w3p: "faults (store w3) = []"
      "processed_commits (store w3) = processed_commits (store ?w2)"
      "fs w3 = fs w" "fileWrites w3 = fileWrites w" "gitCalls w3 = gitCalls w"
    by simp_all
  have eq: "processSingleCommit deps w runID hash dryRun =
      applySection deps w3 hash dryRun t sec (Join (Platform deps) repoRoot t) docRaw newSection"
    using processSingleCommit_reach [OF nofault reach, of runID dryRun] w3 prompt by simp
  show ?thesis
    unfolding eq
    using applySection_unchanged [OF w3p(1) valid repl same, of hash dryRun t
        "Join (Platform deps) repoRoot t"] w3p
    by auto
qed

theorem noop_change_witness:
  "(case processSingleCommit (testDeps (\<lambda>content section new. Inr content) ''- new'')
           testWorld ''run-1'' ''c1'' False of
      (w', st, err) \<Rightarrow>
        st = ''skipped'' \<and> err = None \<and>
        planned_updates (store w') (''c1'', ''README.md'', ''Recent Changes'') =
          Some \<lparr>strategy = ''inferred'', plan_status = ''unchanged'',
                reason = Some ''no document delta''\<rparr> \<and>
        processed_commits (store w') =
          [\<lparr>commit_hash = ''c1'', status = ''skipped'', error = None,
            doc_commit_hash = None, doc_files_changed = []\<rparr>] \<and>
        fs w' = fs testWorld \<and> fileWrites w' = [] \<and> gitCalls w' = [])"
  using noop_change [where deps = "testDeps (\<lambda>content section new. Inr content) ''- new''"
      and hash = "''c1''" and changedFiles = "[''src/a.txt'']"
      and commitMessage = "''feat: add thing''" and diffContent = "''+new''"
      and repoRoot = "''/repo''" and t = "''README.md''" and sec = "''Recent Changes''"
      and w = testWorld and runID = "''run-1''" and dryRun = False and docRaw = "''# T''"
      and newSection = "''- new''" and replaced = "''# T''"
      and prompt = "buildPrompt (Platform (testDeps (\<lambda>content section new. Inr content) ''- new''))
                      ''feat: add thing'' ''+new''"]
  by (simp add: testDeps_def fakeGitHelper_def testConfig_def resolveTarget_def testWorld_def
      emptyStore_def validateGeneratedSection_def TrimSpace_answer NormalizeLineEndings_title
      split: prod.splits)

text \<open>
  C7. In a dry run, \<open>processSingleCommit\<close> leaves the files as they were and calls neither
  \<open>AtomicWriteFile\<close> nor \<open>StageAndCommit\<close> nor \<open>StageAndAmend\<close>, whatever the commit, the store
  and the collaborators do. When the commit reaches the generation step with a working
  store, gets a valid section and the trimmed normalized replacement differs from the
  trimmed original, the dry run ends with the status \<open>success\<close> and no error, the planned
  update is recorded \<open>applied\<close> with the reason \<open>dry-run\<close>, and the row of processed commits
  is \<open>success\<close> with the target document as its list of changed files.
\<close>

theorem dry_run:
  assumes nofault: "faults (store w) = []"
    and reach: "GetChangedFiles (GitHelper deps) hash = Inr changedFiles" "changedFiles \<noteq> []"
      "GetCommitMessage (GitHelper deps) hash = Inr commitMessage"
      "GetCommitDiff (GitHelper deps) hash = Inr diffContent"
      "GetRepoRoot (GitHelper deps) = Inr repoRoot"
      "resolveTarget (Config deps) changedFiles = (t, sec)"
      "fs w (Join (Platform deps) repoRoot t) = Content docRaw"
    and prompt: "prompt = buildPrompt (Platform deps) commitMessage diffContent"
    and gen: "llm_cache (store w) (hash, t, sec, Name (LLMClient deps), Model (LLM (Config deps)),
                hashPrompt (Sum256 (Platform deps)) prompt) = Some newSection \<or>
              llm_cache (store w) (hash, t, sec, Name (LLMClient deps), Model (LLM (Config deps)),
                hashPrompt (Sum256 (Platform deps)) prompt) = None \<and>
              Generate (LLMClient deps) (length (llmCalls w)) prompt = Inr newSection"
    and valid: "validateGeneratedSection newSection = None"
    and repl: "ReplaceSection (DocUpdater deps) docRaw sec newSection = Inr replaced"
    and differs: "TrimSpace (NormalizeLineEndings replaced (DetectLineEnding docRaw)) \<noteq>
               TrimSpace docRaw"
  shows "(case processSingleCommit deps w runID hash True of
           (w', st, err) \<Rightarrow>
             st = ''success'' \<and> err = None \<and>
             planned_updates (store w') (hash, t, sec) =
               Some \<lparr>strategy = ''inferred'', plan_status = ''applied'',
                     reason = Some ''dry-run''\<rparr> \<and>
             processed_commits (store w') =
               filter (\<lambda>r. commit_hash r \<noteq> hash) (processed_commits (store w)) @
               [\<lparr>commit_hash = hash, status = ''success'', error = None,
                 doc_commit_hash = None, doc_files_changed = [t]\<rparr>] \<and>
             fs w' = fs w \<and> fileWrites w' = fileWrites w \<and> gitCalls w' = gitCalls w) \<and>
         fs (fst (processSingleCommit deps' w0 runID' hash' True)) = fs w0 \<and>
         fileWrites (fst (processSingleCommit deps' w0 runID' hash' True)) = fileWrites w0 \<and>
         gitCalls (fst (processSingleCommit deps' w0 runID' hash' True)) = gitCalls w0"
proof -
  let ?w2 = "afterPlanned w hash t sec"
  let ?g = "generateSection deps ?w2 runID hash t sec prompt"
  have f2: "faults (store ?w2) = []"
    using nofault by simp
  have g: "snd ?g = Inr newSection \<and> faults (store (fst ?g)) = [] \<and>
      processed_commits (store (fst ?g)) = processed_commits (store ?w2) \<and>
      fs (fst ?g) = fs ?w2 \<and> fileWrites (fst ?g) = fileWrites ?w2 \<and>
      gitCalls (fst ?g) = gitCalls ?w2"
  proof (cases "llm_cache (store w) (hash, t, sec, Name (LLMClient deps),
      Model (LLM (Config deps)), hashPrompt (Sum256 (Platform deps)) prompt)")
    case None
    with gen have "Generate (LLMClient deps) (length (llmCalls ?w2)) prompt = Inr newSection"
      by simp
    from generateSection_miss [OF f2 _ this, of hash t sec runID] None show ?thesis
      by simp
  next
    case (Some c)
    with gen have "c = newSection"
      by simp
    with generateSection_hit [OF f2, of hash t sec deps prompt c runID] Some show ?thesis
      by simp
  qed
  obtain w3 where w3: "?g = (w3, Inr newSection)"
    using g by (cases ?g) auto
  with g have w3p: "faults (store w3) = []"
      "processed_commits (store w3) = processed_commits (store ?w2)"
      "fs w3 = fs w" "fileWrites w3 = fileWrites w" "gitCalls w3 = gitCalls w"
    by simp_all
  have eq: "processSingleCommit deps w runID hash True =
      applySection deps w3 hash True t sec (Join (Platform deps) repoRoot t) docRaw newSection"
    using processSingleCommit_reach [OF nofault reach, of runID True] w3 prompt by simp
  have path: "case processSingleCommit deps w runID hash True of
           (w', st, err) \<Rightarrow>
             st = ''success'' \<and> err = None \<and>
             planned_updates (store w') (hash, t, sec) =
               Some \<lparr>strategy = ''inferred'', plan_status = ''applied'',
                     reason = Some ''dry-run''\<rparr> \<and>
             processed_commits (store w') =
               filter (\<lambda>r. commit_hash r \<noteq> hash) (processed_commits (store w)) @
               [\<lparr>commit_hash = hash, status = ''success'', error = None,
                 doc_commit_hash = None, doc_files_changed = [t]\<rparr>] \<and>
             fs w' = fs w \<and> fileWrites w' = fileWrites w \<and> gitCalls w' = gitCalls w"
    unfolding eq
    using applySection_dry [OF w3p(1) valid repl differs, of hash t
        "Join (Platform deps) repoRoot t"] w3p
    by auto
  have frame: "fs (fst (processSingleCommit deps' w0 runID' hash' True)) = fs w0 \<and>
         fileWrites (fst (processSingleCommit deps' w0 runID' hash' True)) = fileWrites w0 \<and>
         gitCalls (fst (processSingleCommit deps' w0 runID' hash' True)) = gitCalls w0"
    by (simp add: processSingleCommit_frame)
  from path frame show ?thesis
    by (rule conjI)
qed

theorem dry_run_witness:
  "(case processSingleCommit (testDeps (\<lambda>content section new. Inr (content @ new)) ''- new'')
           testWorld ''run-1'' ''c1'' True of
      (w', st, err) \<Rightarrow>
        st = ''success'' \<and> err = None \<and>
        planned_updates (store w') (''c1'', ''README.md'', ''Recent Changes'') =
          Some \<lparr>strategy = ''inferred'', plan_status = ''applied'',
                reason = Some ''dry-run''\<rparr> \<and>
        processed_commits (store w') =
          [\<lparr>commit_hash = ''c1'', status = ''success'', error = None,
            doc_commit_hash = None, doc_files_changed = [''README.md'']\<rparr>] \<and>
        fs w' = fs testWorld \<and> fileWrites w' = [] \<and> gitCalls w' = [])"
  using dry_run [where deps = "testDeps (\<lambda>content section new. Inr (content @ new)) ''- new''"
      and hash = "''c1''" and changedFiles = "[''src/a.txt'']"
      and commitMessage = "''feat: add thing''" and diffContent = "''+new''"
      and repoRoot = "''/repo''" and t = "''README.md''" and sec = "''Recent Changes''"
      and w = testWorld and runID = "''run-1''" and docRaw = "''# T''"
      and newSection = "''- new''" and replaced = "''# T- new''"
      and prompt = "buildPrompt (Platform (testDeps (\<lambda>content section new. Inr (content @ new)) ''- new''))
                      ''feat: add thing'' ''+new''"
      and deps' = "testDeps (\<lambda>content section new. Inr (content @ new)) ''- new''"
      and w0 = testWorld and runID' = "''run-1''" and hash' = "''c1''"]
  by (simp add: testDeps_def fakeGitHelper_def testConfig_def resolveTarget_def testWorld_def
      emptyStore_def validateGeneratedSection_def TrimSpace_answer NormalizeLineEndings_title
      TrimSpace_title TrimSpace_title_answer split: prod.splits)

text \<open>
  C9. \<open>validateGeneratedSection\<close> rejects exactly the contents whose text, trimmed of leading
  and trailing whitespace, is empty or longer than 25000 bytes. When a commit reaches the
  generation step with a working store and the section obtained, from the cache or from the
  client, is rejected with the reason \<open>r\<close>, the commit ends with the status \<open>failed\<close> and the
  error \<open>r\<close>, its planned update is recorded \<open>failed\<close> with the reason \<open>r\<close>, no file is
  written and no documentation commit is made.
\<close>

theorem validation_rejects:
  assumes nofault: "faults (store w) = []"
    and reach: "GetChangedFiles (GitHelper deps) hash = Inr changedFiles" "changedFiles \<noteq> []"
      "GetCommitMessage (GitHelper deps) hash = Inr commitMessage"
      "GetCommitDiff (GitHelper deps) hash = Inr diffContent"
      "GetRepoRoot (GitHelper deps) = Inr repoRoot"
      "resolveTarget (Config deps) changedFiles = (t, sec)"
      "fs w (Join (Platform deps) repoRoot t) = Content docRaw"
    and prompt: "prompt = buildPrompt (Platform deps) commitMessage diffContent"
    and gen: "llm_cache (store w) (hash, t, sec, Name (LLMClient deps), Model (LLM (Config deps)),
                hashPrompt (Sum256 (Platform deps)) prompt) = Some newSection \<or>
              llm_cache (store w) (hash, t, sec, Name (LLMClient deps), Model (LLM (Config deps)),
                hashPrompt (Sum256 (Platform deps)) prompt) = None \<and>
              Generate (LLMClient deps) (length (llmCalls w)) prompt = Inr newSection"
    and invalid: "validateGeneratedSection newSection = Some r"
  shows "((validateGeneratedSection content \<noteq> None) =
            (TrimSpace content = [] \<or> 25000 < length (TrimSpace content))) \<and>
         (case processSingleCommit deps w runID hash dryRun of
           (w', st, err) \<Rightarrow>
             st = ''failed'' \<and> err = Some r \<and>
             planned_updates (store w') (hash, t, sec) =
               Some \<lparr>strategy = ''inferred'', plan_status = ''failed'', reason = Some r\<rparr> \<and>
             fs w' = fs w \<and> fileWrites w' = fileWrites w \<and> gitCalls w' = gitCalls w)"
proof -
  let ?w2 = "afterPlanned w hash t sec"
  let ?g = "generateSection deps ?w2 runID hash t sec prompt"
  have f2: "faults (store ?w2) = []"
    using nofault by simp
  have g: "snd ?g = Inr newSection \<and> faults (store (fst ?g)) = [] \<and>
      fs (fst ?g) = fs ?w2 \<and> fileWrites (fst ?g) = fileWrites ?w2 \<and>
      gitCalls (fst ?g) = gitCalls ?w2"
  proof (cases "llm_cache (store w) (hash, t, sec, Name (LLMClient deps),
      Model (LLM (Config deps)), hashPrompt (Sum256 (Platform deps)) prompt)")
    case None
    with gen have "Generate (LLMClient deps) (length (llmCalls ?w2)) prompt = Inr newSection"
      by simp
    from generateSection_miss [OF f2 _ this, of hash t sec runID] None show ?thesis
      by simp
  next
    case (Some c)
    with gen have "c = newSection"
      by simp
    with generateSection_hit [OF f2, of hash t sec deps prompt c runID] Some show ?thesis
      by simp
  qed
  obtain w3 where w3: "?g = (w3, Inr newSection)"
    using g by (cases ?g) auto
  with g have w3p: "faults (store w3) = []"
      "fs w3 = fs w" "fileWrites w3 = fileWrites w" "gitCalls w3 = gitCalls w"
    by simp_all
  have eq: "processSingleCommit deps w runID hash dryRun =
      applySection deps w3 hash dryRun t sec (Join (Platform deps) repoRoot t) docRaw newSection"
    using processSingleCommit_reach [OF nofault reach, of runID dryRun] w3 prompt by simp
  have path: "case processSingleCommit deps w runID hash dryRun of
           (w', st, err) \<Rightarrow>
             st = ''failed'' \<and> err = Some r \<and>
             planned_updates (store w') (hash, t, sec) =
               Some \<lparr>strategy = ''inferred'', plan_status = ''failed'', reason = Some r\<rparr> \<and>
             fs w' = fs w \<and> fileWrites w' = fileWrites w \<and> gitCalls w' = gitCalls w"
    unfolding eq
    using applySection_rejected [OF w3p(1) invalid, of deps hash dryRun t sec
        "Join (Platform deps) repoRoot t" docRaw] w3p
    by auto
  have exact: "(validateGeneratedSection content \<noteq> None) =
      (TrimSpace content = [] \<or> 25000 < length (TrimSpace content))"
    by (simp add: validateGeneratedSection_def Let_def)
  from exact path show ?thesis
    by (rule conjI)
qed

theorem validation_rejects_witness:
  "(case processSingleCommit (testDeps (\<lambda>content section new. Inr (content @ new)) ''  '')
           testWorld ''run-1'' ''c1'' False of
      (w', st, err) \<Rightarrow>
        st = ''failed'' \<and> err = Some ''generated section content is empty'' \<and>
        planned_updates (store w') (''c1'', ''README.md'', ''Recent Changes'') =
          Some \<lparr>strategy = ''inferred'', plan_status = ''failed'',
                reason = Some ''generated section content is empty''\<rparr> \<and>
        fs w' = fs testWorld \<and> fileWrites w' = [] \<and> gitCalls w' = [])"
  using validation_rejects [where deps = "testDeps (\<lambda>content section new. Inr (content @ new)) ''  ''"
      and hash = "''c1''" and changedFiles = "[''src/a.txt'']"
      and commitMessage = "''feat: add thing''" and diffContent = "''+new''"
      and repoRoot = "''/repo''" and t = "''README.md''" and sec = "''Recent Changes''"
      and w = testWorld and runID = "''run-1''" and dryRun = False and docRaw = "''# T''"
      and newSection = "''  ''" and r = "''generated section content is empty''"
      and prompt = "buildPrompt (Platform (testDeps (\<lambda>content section new. Inr (content @ new)) ''  ''))
                      ''feat: add thing'' ''+new''"
      and content = "''  ''"]
  by (simp add: testDeps_def fakeGitHelper_def testConfig_def resolveTarget_def testWorld_def
      emptyStore_def validateGeneratedSection_def TrimSpace_blank split: prod.splits)

text \<open>
  The rule in the specification's words, \<open>rejected_spec\<close>, counts the characters of the
  content as given. A content of 25000 letters and a final newline has 25001 characters and
  is accepted: the newline is trimmed before the length is taken. A content of 8334
  characters of three bytes each is rejected: the length is taken in bytes.
\<close>

theorem validation_length_counterexample:
  "validateGeneratedSection (replicate 25000 (CHR ''a'') @ [CHR 0x0A]) = None \<and>
   rejected_spec (replicate 25000 (CHR ''a'') @ [CHR 0x0A]) \<and>
   validateGeneratedSection (concat (replicate 8334 [CHR 0xE4, CHR 0xB8, CHR 0xAD])) =
     Some ''generated section content exceeds max size'' \<and>
   \<not> rejected_spec (concat (replicate 8334 [CHR 0xE4, CHR 0xB8, CHR 0xAD]))"
proof -
  let ?a = "replicate 25000 (CHR ''a'') @ [CHR 0x0A]"
  let ?b = "concat (replicate 8334 [CHR 0xE4, CHR 0xB8, CHR 0xAD])"
  have ta: "TrimSpace ?a = replicate 25000 (CHR ''a'')"
    using TrimSpace_letters_newline [of 24999] by simp
  have a1: "validateGeneratedSection ?a = None"
    unfolding validateGeneratedSection_def ta by (simp add: Let_def)
  have a2: "rejected_spec ?a"
    unfolding rejected_spec_def using runeCount_letters [of 25000] by simp
  have tb: "TrimSpace ?b = ?b"
    using TrimSpace_wide [of 8333] by simp
  have lb: "length ?b = 25002"
    using length_wide [of 8334] by simp
  then have nb: "?b \<noteq> []"
    by auto
  have b1: "validateGeneratedSection ?b = Some ''generated section content exceeds max size''"
    unfolding validateGeneratedSection_def tb using lb nb by (simp add: Let_def)
  have b2: "\<not> rejected_spec ?b"
    unfolding rejected_spec_def tb using nb runeCount_wide [of 8334] by simp
  from a1 a2 b1 b2 show ?thesis
    by simp
qed

text \<open>
  C10. When the cache holds a response for the commit, its target and its prompt, and the
  store works, the generation client is not called for the commit: the calls made to it are
  those made before. The cached response goes through \<open>validateGeneratedSection\<close>: if it is
  rejected with the reason \<open>r\<close>, the commit ends with the status \<open>failed\<close> and the error \<open>r\<close>,
  its planned update is recorded \<open>failed\<close> with that reason, and nothing is written or
  committed.
\<close>

theorem cached_response_validated:
  assumes nofault: "faults (store w) = []"
    and reach: "GetChangedFiles (GitHelper deps) hash = Inr changedFiles" "changedFiles \<noteq> []"
      "GetCommitMessage (GitHelper deps) hash = Inr commitMessage"
      "GetCommitDiff (GitHelper deps) hash = Inr diffContent"
      "GetRepoRoot (GitHelper deps) = Inr repoRoot"
      "resolveTarget (Config deps) changedFiles = (t, sec)"
      "fs w (Join (Platform deps) repoRoot t) = Content docRaw"
    and prompt: "prompt = buildPrompt (Platform deps) commitMessage diffContent"
    and hit: "llm_cache (store w) (hash, t, sec, Name (LLMClient deps), Model (LLM (Config deps)),
                hashPrompt (Sum256 (Platform deps)) prompt) = Some cached"
  shows "case processSingleCommit deps w runID hash dryRun of
           (w', st, err) \<Rightarrow>
             llmCalls w' = llmCalls w \<and>
             (validateGeneratedSection cached = Some r \<longrightarrow>
                st = ''failed'' \<and> err = Some r \<and>
                planned_updates (store w') (hash, t, sec) =
                  Some \<lparr>strategy = ''inferred'', plan_status = ''failed'', reason = Some r\<rparr> \<and>
                fs w' = fs w \<and> fileWrites w' = fileWrites w \<and> gitCalls w' = gitCalls w)"
proof -
  let ?w2 = "afterPlanned w hash t sec"
  let ?g = "generateSection deps ?w2 runID hash t sec prompt"
  have f2: "faults (store ?w2) = []"
    using nofault by simp
  have g: "snd ?g = Inr cached \<and> faults (store (fst ?g)) = [] \<and>
      fs (fst ?g) = fs ?w2 \<and> fileWrites (fst ?g) = fileWrites ?w2 \<and>
      gitCalls (fst ?g) = gitCalls ?w2 \<and> llmCalls (fst ?g) = llmCalls ?w2"
    using generateSection_hit [OF f2, of hash t sec deps prompt cached runID] hit by simp
  obtain w3 where w3: "?g = (w3, Inr cached)"
    using g by (cases ?g) auto
  with g have w3p: "faults (store w3) = []"
      "fs w3 = fs w" "fileWrites w3 = fileWrites w" "gitCalls w3 = gitCalls w"
      "llmCalls w3 = llmCalls w"
    by simp_all
  let ?a = "applySection deps w3 hash dryRun t sec (Join (Platform deps) repoRoot t) docRaw cached"
  have eq: "processSingleCommit deps w runID hash dryRun = ?a"
    using processSingleCommit_reach [OF nofault reach, of runID dryRun] w3 prompt by simp
  have calls: "llmCalls (fst ?a) = llmCalls w"
    using applySection_llmCalls [of deps w3 hash dryRun t sec "Join (Platform deps) repoRoot t"
        docRaw cached] w3p by simp
  have rej: "validateGeneratedSection cached = Some r \<longrightarrow>
      (case ?a of (w', st, err) \<Rightarrow>
         st = ''failed'' \<and> err = Some r \<and>
         planned_updates (store w') (hash, t, sec) =
           Some \<lparr>strategy = ''inferred'', plan_status = ''failed'', reason = Some r\<rparr> \<and>
         fs w' = fs w \<and> fileWrites w' = fileWrites w \<and> gitCalls w' = gitCalls w)"
  proof
    assume "validateGeneratedSection cached = Some r"
    from applySection_rejected [OF w3p(1) this, of deps hash dryRun t sec
        "Join (Platform deps) repoRoot t" docRaw] w3p
    show "case ?a of (w', st, err) \<Rightarrow>
         st = ''failed'' \<and> err = Some r \<and>
         planned_updates (store w') (hash, t, sec) =
           Some \<lparr>strategy = ''inferred'', plan_status = ''failed'', reason = Some r\<rparr> \<and>
         fs w' = fs w \<and> fileWrites w' = fileWrites w \<and> gitCalls w' = gitCalls w"
      by auto
  qed
  show ?thesis
    unfolding eq using calls rej by (cases ?a) auto
qed

theorem cached_response_validated_witness:
  "(case processSingleCommit (testDeps (\<lambda>content section new. Inr (content @ new)) ''- new'')
           (testWorld\<lparr>store := emptyStore\<lparr>llm_cache := (\<lambda>key. Some ''  '')\<rparr>\<rparr>)
           ''run-1'' ''c1'' False of
      (w', st, err) \<Rightarrow>
        llmCalls w' = [] \<and> st = ''failed'' \<and>
        err = Some ''generated section content is empty'' \<and>
        planned_updates (store w') (''c1'', ''README.md'', ''Recent Changes'') =
          Some \<lparr>strategy = ''inferred'', plan_status = ''failed'',
                reason = Some ''generated section content is empty''\<rparr> \<and>
        fs w' = fs testWorld \<and> fileWrites w' = [] \<and> gitCalls w' = [])"
  using cached_response_validated
     [where deps = "testDeps (\<lambda>content section new. Inr (content @ new)) ''- new''"
      and hash = "''c1''" and changedFiles = "[''src/a.txt'']"
      and commitMessage = "''feat: add thing''" and diffContent = "''+new''"
      and repoRoot = "''/repo''" and t = "''README.md''" and sec = "''Recent Changes''"
      and w = "testWorld\<lparr>store := emptyStore\<lparr>llm_cache := (\<lambda>key. Some ''  '')\<rparr>\<rparr>"
      and runID = "''run-1''" and dryRun = False and docRaw = "''# T''"
      and cached = "''  ''" and r = "''generated section content is empty''"
      and prompt = "buildPrompt (Platform (testDeps (\<lambda>content section new. Inr (content @ new)) ''- new''))
                      ''feat: add thing'' ''+new''"]
  by (simp add: testDeps_def fakeGitHelper_def testConfig_def resolveTarget_def testWorld_def
      emptyStore_def validateGeneratedSection_def TrimSpace_blank split: prod.splits)

section \<open>The summary of a run\<close>

lemma updateLoop_summary:
  "updateLoop deps runID dryRun hs w s = (w', s') \<Longrightarrow>
   Processed s' = Processed s + int (length hs) \<and>
   Success s' + Failed s' + Skipped s' = Success s + Failed s + Skipped s + int (length hs) \<and>
   Success s \<le> Success s' \<and> Failed s \<le> Failed s' \<and> Skipped s \<le> Skipped s'"
proof (induction hs arbitrary: w s)
  case Nil
  then show ?case by simp
next
  case (Cons h hs)
  from Cons.prems show ?case
    by (auto simp: Let_def split: prod.splits option.splits if_splits dest!: Cons.IH)
qed

text \<open>
  C1. \<open>UpdateCommitList\<close> returns a summary for every list of commits and every dry-run
  flag, in every world; its four counters are non-negative, \<open>Processed\<close> is the sum of
  \<open>Success\<close>, \<open>Failed\<close> and \<open>Skipped\<close>, and it is the number of commits of the list. The
  summaries returned by \<open>UpdateNewCommits\<close> and \<open>UpdateRangeCommits\<close>, when they return one,
  have non-negative counters with \<open>Processed\<close> the sum of the three others.
\<close>

theorem summary_adds_up:
  "(\<exists>w' s. UpdateCommitList deps w commitHashes dryRun = (w', Inr s) \<and>
      0 \<le> Processed s \<and> 0 \<le> Success s \<and> 0 \<le> Failed s \<and> 0 \<le> Skipped s \<and>
      Processed s = Success s + Failed s + Skipped s \<and>
      Processed s = int (length commitHashes)) \<and>
   (\<forall>w1 s1. UpdateNewCommits deps w dryRun = (w1, Inr s1) \<longrightarrow>
      0 \<le> Processed s1 \<and> 0 \<le> Success s1 \<and> 0 \<le> Failed s1 \<and> 0 \<le> Skipped s1 \<and>
      Processed s1 = Success s1 + Failed s1 + Skipped s1) \<and>
   (\<forall>w2 s2. UpdateRangeCommits deps w fromHash toHash dryRun = (w2, Inr s2) \<longrightarrow>
      0 \<le> Processed s2 \<and> 0 \<le> Success s2 \<and> 0 \<le> Failed s2 \<and> 0 \<le> Skipped s2 \<and>
      Processed s2 = Success s2 + Failed s2 + Skipped s2)"
proof -
  have list: "\<exists>w' s. UpdateCommitList deps v hs dryRun = (w', Inr s) \<and>
      0 \<le> Processed s \<and> 0 \<le> Success s \<and> 0 \<le> Failed s \<and> 0 \<le> Skipped s \<and>
      Processed s = Success s + Failed s + Skipped s \<and>
      Processed s = int (length hs)" for v hs
  proof -
    let ?runID = "''run-'' @ itoa (UnixNano (Platform deps))"
    let ?w1 = "discard v (\<lambda>s. LogRunEvent s ?runID [] ''info'' ''orchestrator''
                                 ''update loop started''
                                 (Some [(''commits'', Num (int (length hs)))]))"
    obtain w2 s where loop: "updateLoop deps ?runID dryRun hs ?w1
        \<lparr>Processed = 0, Success = 0, Failed = 0, Skipped = 0\<rparr> = (w2, s)"
      by (cases "updateLoop deps ?runID dryRun hs ?w1
        \<lparr>Processed = 0, Success = 0, Failed = 0, Skipped = 0\<rparr>") auto
    from updateLoop_summary [OF loop]
    have "0 \<le> Processed s \<and> 0 \<le> Success s \<and> 0 \<le> Failed s \<and> 0 \<le> Skipped s \<and>
      Processed s = Success s + Failed s + Skipped s \<and> Processed s = int (length hs)"
      by simp
    with loop show ?thesis
      by (simp add: UpdateCommitList_def Let_def)
  qed
  have inv: "0 \<le> Processed s \<and> 0 \<le> Success s \<and> 0 \<le> Failed s \<and> 0 \<le> Skipped s \<and>
      Processed s = Success s + Failed s + Skipped s"
    if "UpdateCommitList deps v hs dryRun = (w', Inr s)" for v hs w' s
    using list [of v hs] that by auto
  show ?thesis
    using list [of w commitHashes]
    by (auto simp: UpdateNewCommits_def UpdateRangeCommits_def
        split: prod.splits sum.splits if_splits dest!: inv)
qed

theorem summary_adds_up_witness:
  "(\<exists>w' s. UpdateCommitList (testDeps (\<lambda>content section new. Inr (content @ new)) ''- new'')
             testWorld [''c1'', ''c2''] False = (w', Inr s) \<and>
           Processed s = 2 \<and> Success s + Failed s + Skipped s = 2 \<and>
           0 \<le> Success s \<and> 0 \<le> Failed s \<and> 0 \<le> Skipped s) \<and>
   (\<exists>w1 s1. UpdateNewCommits (testDeps (\<lambda>content section new. Inr (content @ new)) ''- new'')
             testWorld False = (w1, Inr s1) \<and>
           Processed s1 = 1 \<and> Success s1 + Failed s1 + Skipped s1 = 1) \<and>
   (\<exists>w2 s2. UpdateRangeCommits (testDeps (\<lambda>content section new. Inr (content @ new)) ''- new'')
             testWorld ''c0'' [] False = (w2, Inr s2) \<and>
           Processed s2 = 1 \<and> Success s2 + Failed s2 + Skipped s2 = 1)"
proof -
  let ?D = "testDeps (\<lambda>content section new. Inr (content @ new)) ''- new''"
  have new: "UpdateNewCommits ?D testWorld False = UpdateCommitList ?D testWorld [''c1''] False"
    by (simp add: UpdateNewCommits_def onStore_def GetResumableCommits_def
        GetLastProcessedCommit_def statement_def testWorld_def emptyStore_def testDeps_def
        fakeGitHelper_def mergeUnique_def)
  have range: "UpdateRangeCommits ?D testWorld ''c0'' [] False =
      UpdateCommitList ?D testWorld [''c1''] False"
    by (simp add: UpdateRangeCommits_def TrimSpace_Nil testDeps_def fakeGitHelper_def)
  note two = summary_adds_up [where deps = ?D and w = testWorld
      and commitHashes = "[''c1'', ''c2'']" and dryRun = False
      and fromHash = "''c0''" and toHash = "[]"]
  note one = summary_adds_up [where deps = ?D and w = testWorld
      and commitHashes = "[''c1'']" and dryRun = False
      and fromHash = "''c0''" and toHash = "[]"]
  from one obtain w' s where s: "UpdateCommitList ?D testWorld [''c1''] False = (w', Inr s)"
      "Processed s = 1"
    by auto
  from one new s have n: "Processed s = Success s + Failed s + Skipped s"
    by simp
  from two have c1: "\<exists>w' s. UpdateCommitList ?D testWorld [''c1'', ''c2''] False = (w', Inr s) \<and>
           Processed s = 2 \<and> Success s + Failed s + Skipped s = 2 \<and>
           0 \<le> Success s \<and> 0 \<le> Failed s \<and> 0 \<le> Skipped s"
    by auto
  from s n new have c2: "\<exists>w1 s1. UpdateNewCommits ?D testWorld False = (w1, Inr s1) \<and>
           Processed s1 = 1 \<and> Success s1 + Failed s1 + Skipped s1 = 1"
    by simp
  from s n range have c3: "\<exists>w2 s2. UpdateRangeCommits ?D testWorld ''c0'' [] False = (w2, Inr s2) \<and>
           Processed s2 = 1 \<and> Success s2 + Failed s2 + Skipped s2 = 1"
    by simp
  from c1 c2 c3 show ?thesis
    by blast
qed

section \<open>The resilient client: retries, fallback and waits\<close>












section \<open>The provider clients: no blank success\<close>

lemma trimLeftRunes_Nil_chars:
  "trimLeftRunes rs s = [] \<Longrightarrow> set s \<subseteq> \<Union> (set ` set rs)"
proof (induction rs s rule: trimLeftRunes.induct)
  case (1 rs s)
  show ?case
  proof (cases "find (\<lambda>e. e \<noteq> [] \<and> prefix e s) rs")
    case None
    with "1.prems" show ?thesis
      by (simp add: trimLeftRunes.simps)
  next
    case (Some e)
    then have e: "e \<in> set rs" "prefix e s"
      by (auto simp: find_Some_iff)
    from "1.prems" Some have "trimLeftRunes rs (drop (length e) s) = []"
      by (subst (asm) trimLeftRunes.simps) simp
    from "1.IH" [OF Some this] have "set (drop (length e) s) \<subseteq> \<Union> (set ` set rs)" .
    moreover from e(2) have "s = e @ drop (length e) s"
      by (auto simp: prefix_def)
    then have "set s = set e \<union> set (drop (length e) s)"
      by (metis set_append)
    ultimately show ?thesis
      using e(1) by auto
  qed
qed

lemma dash_not_space: "CHR ''-'' \<notin> \<Union> (set ` set spaceRunes)"
  by (simp add: spaceRunes_def)

lemma N_not_space: "CHR ''N'' \<notin> \<Union> (set ` set spaceRunes)"
  by (simp add: spaceRunes_def)

text \<open>A text with a character that is in no whitespace encoding does not trim to nothing.\<close>

lemma TrimSpace_not_Nil:
  assumes "c \<in> set s" and "c \<notin> \<Union> (set ` set spaceRunes)"
  shows "TrimSpace s \<noteq> []"
proof
  assume "TrimSpace s = []"
  then have "trimLeftRunes (map rev spaceRunes) (rev (trimLeftRunes spaceRunes s)) = []"
    by (simp add: TrimSpace_def)
  from trimLeftRunes_Nil_chars [OF this]
  have sub: "set (trimLeftRunes spaceRunes s) \<subseteq> \<Union> (set ` set spaceRunes)"
    by auto
  have "c \<in> set (trimLeftRunes spaceRunes s)"
    using assms
  proof (induction spaceRunes s rule: trimLeftRunes.induct)
    case (1 s)
    show ?case
    proof (cases "find (\<lambda>e. e \<noteq> [] \<and> prefix e s) spaceRunes")
      case None
      with "1.prems" show ?thesis
        by (simp add: trimLeftRunes.simps)
    next
      case (Some e)
      then have e: "e \<in> set spaceRunes" "prefix e s"
        by (auto simp: find_Some_iff)
      from e(2) have "s = e @ drop (length e) s"
        by (auto simp: prefix_def)
      then have "set s = set e \<union> set (drop (length e) s)"
        by (metis set_append)
      with "1.prems" e(1) have "c \<in> set (drop (length e) s)"
        by auto
      from "1.hyps" [OF Some this "1.prems"(2)] Some show ?thesis
        by (subst trimLeftRunes.simps) simp
    qed
  qed
  with sub assms(2) show False
    by auto
qed

lemma Groq_nonblank: "GroqClient_Generate x = Inr r \<Longrightarrow> TrimSpace r \<noteq> []"
  by (auto simp: GroqClient_Generate_def TrimSpace_idem
      split: exchange.splits if_splits sum.splits list.splits)

lemma Ollama_nonblank: "OllamaClient_Generate x = Inr r \<Longrightarrow> TrimSpace r \<noteq> []"
  by (auto simp: OllamaClient_Generate_def TrimSpace_idem
      split: exchange.splits if_splits sum.splits)

lemma firstTextBlock_nonblank: "firstTextBlock bs = Inr r \<Longrightarrow> TrimSpace r \<noteq> []"
  by (induction bs) (auto simp: TrimSpace_idem split: if_splits)

lemma Anthropic_nonblank: "AnthropicClient_Generate x = Inr r \<Longrightarrow> TrimSpace r \<noteq> []"
  by (auto simp: AnthropicClient_Generate_def firstTextBlock_nonblank
      split: exchange.splits if_splits sum.splits)

lemma firstPart_nonblank: "firstPart ps = Some r \<Longrightarrow> TrimSpace r \<noteq> []"
  by (induction ps) (auto simp: TrimSpace_idem split: if_splits)

lemma firstCandidate_nonblank: "firstCandidate cs = Inr r \<Longrightarrow> TrimSpace r \<noteq> []"
  by (induction cs) (auto simp: firstPart_nonblank split: option.splits)

lemma Gemini_nonblank: "GeminiClient_Generate x = Inr r \<Longrightarrow> TrimSpace r \<noteq> []"
  by (auto simp: GeminiClient_Generate_def firstCandidate_nonblank
      split: exchange.splits if_splits sum.splits)

lemma Mock_nonblank: "MockClient_Generate prompt = Inr r \<Longrightarrow> TrimSpace r \<noteq> []"
proof -
  assume a: "MockClient_Generate prompt = Inr r"
  have "CHR ''N'' \<in> set r \<or> CHR ''-'' \<in> set r"
    using a by (auto simp: MockClient_Generate_def Let_def split: if_splits)
  then show ?thesis
    using TrimSpace_not_Nil [of "CHR ''N''" r] TrimSpace_not_Nil [of "CHR ''-''" r]
      dash_not_space N_not_space by blast
qed

lemma OpenAI_trimmed: "OpenAIClient_Generate x = Inr r \<Longrightarrow> TrimSpace r = r"
  by (auto simp: OpenAIClient_Generate_def TrimSpace_idem
      split: exchange.splits if_splits sum.splits list.splits)

lemma TrimSpace_ok: "TrimSpace '' ok '' = ''ok''"
  by (simp add: TrimSpace_def trimLeftRunes.simps spaceRunes_def)

lemma TrimSpace_ok_idem: "TrimSpace ''ok'' = ''ok''"
  by (simp add: TrimSpace_def trimLeftRunes.simps spaceRunes_def)

lemma TrimSpace_three_spaces: "TrimSpace ''   '' = []"
  by (simp add: TrimSpace_def trimLeftRunes.simps spaceRunes_def)

text \<open>
  C3. The clients of Groq, Ollama, Anthropic and Gemini and the mock client never return a
  nil error with a text that is empty or only whitespace: a text they return is not empty
  once trimmed. The OpenAI client returns the trimmed content of the first choice without
  looking at it: a text it returns with a nil error is empty exactly when it answers a
  status below 300 whose parsed body has a first choice with empty or whitespace-only
  content.
\<close>

theorem provider_success_text:
  "(GroqClient_Generate x1 = Inr r1 \<longrightarrow> TrimSpace r1 \<noteq> []) \<and>
   (OllamaClient_Generate x2 = Inr r2 \<longrightarrow> TrimSpace r2 \<noteq> []) \<and>
   (AnthropicClient_Generate x3 = Inr r3 \<longrightarrow> TrimSpace r3 \<noteq> []) \<and>
   (GeminiClient_Generate x4 = Inr r4 \<longrightarrow> TrimSpace r4 \<noteq> []) \<and>
   (MockClient_Generate prompt = Inr r5 \<longrightarrow> TrimSpace r5 \<noteq> []) \<and>
   (OpenAIClient_Generate x6 = Inr r6 \<longrightarrow>
      TrimSpace r6 = r6 \<and>
      (r6 = [] \<longleftrightarrow>
         (\<exists>statusCode body c cs.
            x6 = Reply statusCode body (Inr \<lparr>Choices = c # cs\<rparr>) \<and> statusCode < 300 \<and>
            TrimSpace (MessageContent (ChoiceMessage c)) = [])))"
proof -
  have "OpenAIClient_Generate x6 = Inr r6 \<longrightarrow>
      (r6 = [] \<longleftrightarrow>
         (\<exists>statusCode body c cs.
            x6 = Reply statusCode body (Inr \<lparr>Choices = c # cs\<rparr>) \<and> statusCode < 300 \<and>
            TrimSpace (MessageContent (ChoiceMessage c)) = []))"
  proof (cases x6)
    case (RequestFailed e)
    then show ?thesis
      by (simp add: OpenAIClient_Generate_def)
  next
    case (Reply statusCode body unmarshalled)
    show ?thesis
    proof (cases unmarshalled)
      case (Inl e)
      with Reply show ?thesis
        by (simp add: OpenAIClient_Generate_def)
    next
      case (Inr parsed)
      obtain chs where p: "parsed = \<lparr>Choices = chs\<rparr>"
        by (cases parsed) simp
      show ?thesis
      proof (cases chs)
        case Nil
        with Reply Inr p show ?thesis
          by (simp add: OpenAIClient_Generate_def)
      next
        case (Cons c cs)
        with Reply Inr p show ?thesis
          by (auto simp: OpenAIClient_Generate_def)
      qed
    qed
  qed
  then show ?thesis
    by (simp add: Groq_nonblank Ollama_nonblank Anthropic_nonblank Gemini_nonblank
        Mock_nonblank OpenAI_trimmed)
qed

theorem provider_success_text_witness:
  "GroqClient_Generate (Reply 200 ''{}''
      (Inr \<lparr>Choices = [\<lparr>ChoiceMessage = \<lparr>MessageContent = '' ok ''\<rparr>\<rparr>]\<rparr>)) = Inr ''ok'' \<and>
   OllamaClient_Generate (Reply 200 ''{}'' (Inr \<lparr>OllamaResponse = '' ok ''\<rparr>)) = Inr ''ok'' \<and>
   AnthropicClient_Generate (Reply 200 ''{}''
      (Inr \<lparr>ReplyContent = [\<lparr>BlockType = ''text'', BlockText = '' ok ''\<rparr>]\<rparr>)) = Inr ''ok'' \<and>
   GeminiClient_Generate (Reply 200 ''{}''
      (Inr \<lparr>Candidates = [\<lparr>Parts = [\<lparr>PartText = '' ok ''\<rparr>]\<rparr>]\<rparr>)) = Inr ''ok'' \<and>
   MockClient_Generate [] = Inr ''No changes detected.'' \<and>
   OpenAIClient_Generate (Reply 200 ''{}''
      (Inr \<lparr>Choices = [\<lparr>ChoiceMessage = \<lparr>MessageContent = '' ok ''\<rparr>\<rparr>]\<rparr>)) = Inr ''ok'' \<and>
   TrimSpace ''ok'' \<noteq> [] \<and> TrimSpace ''No changes detected.'' \<noteq> []"
  using provider_success_text [where
      ?x1.0 = "Reply 200 ''{}'' (Inr \<lparr>Choices = [\<lparr>ChoiceMessage = \<lparr>MessageContent = '' ok ''\<rparr>\<rparr>]\<rparr>)"
      and ?r1.0 = "''ok''"
      and ?x2.0 = "Reply 200 ''{}'' (Inr \<lparr>OllamaResponse = '' ok ''\<rparr>)" and ?r2.0 = "''ok''"
      and ?x3.0 = "Reply 200 ''{}'' (Inr \<lparr>ReplyContent = [\<lparr>BlockType = ''text'', BlockText = '' ok ''\<rparr>]\<rparr>)"
      and ?r3.0 = "''ok''"
      and ?x4.0 = "Reply 200 ''{}'' (Inr \<lparr>Candidates = [\<lparr>Parts = [\<lparr>PartText = '' ok ''\<rparr>]\<rparr>]\<rparr>)"
      and ?r4.0 = "''ok''"
      and prompt = "[]" and ?r5.0 = "''No changes detected.''"
      and ?x6.0 = "Reply 200 ''{}'' (Inr \<lparr>Choices = [\<lparr>ChoiceMessage = \<lparr>MessageContent = '' ok ''\<rparr>\<rparr>]\<rparr>)"
      and ?r6.0 = "''ok''"]
  by (simp add: GroqClient_Generate_def OllamaClient_Generate_def AnthropicClient_Generate_def
      GeminiClient_Generate_def MockClient_Generate_def OpenAIClient_Generate_def
      TrimSpace_ok TrimSpace_Nil)

text \<open>
  The OpenAI client on a reply with status 200 whose first choice has the content of three
  spaces: the empty text with a nil error.
\<close>

theorem OpenAI_blank_success:
  "OpenAIClient_Generate
     (Reply 200 ''{\"choices\":[{\"message\":{\"content\":\"   \"}}]}''
        (Inr \<lparr>Choices = [\<lparr>ChoiceMessage = \<lparr>MessageContent = ''   ''\<rparr>\<rparr>]\<rparr>)) = Inr [] \<and>
   GroqClient_Generate
     (Reply 200 ''{\"choices\":[{\"message\":{\"content\":\"   \"}}]}''
        (Inr \<lparr>Choices = [\<lparr>ChoiceMessage = \<lparr>MessageContent = ''   ''\<rparr>\<rparr>]\<rparr>)) =
     Inl ''groq response has no choices''"
  by (simp add: OpenAIClient_Generate_def GroqClient_Generate_def TrimSpace_three_spaces)

end
